theory Spec2Isabelle
  imports Main
begin

section \<open>Errors\<close>

text \<open>
  Every exception the modelled code can raise is a value. A method that mutates its object
  returns the pair of the outcome (\<open>None\<close> for a normal return, \<open>Some e\<close> for a raised
  exception) and the object as it is left behind, so that mutations made before a raise stay
  visible, as they do in Python.
\<close>

datatype error =
    ValueError string
  | NotImplementedError string
  | AssertionError string
  | IndexError
  | KeyError string
  | TypeError
  | FileNotFoundError string
  | AttributeError string
  | RuntimeError

section \<open>NumPy arrays\<close>

text \<open>
  An array is its element type tag, its shape and its elements in row-major order. The
  element values are kept abstract (type \<open>'a\<close>): no floating-point arithmetic is fixed
  here, only which array operation is applied to which array.
\<close>

datatype dtype = Float32 | Float64 | Complex64 | Complex128

record 'a ndarray =
  dtype :: dtype
  shape :: "nat list"
  flat :: "'a list"

definition wf_array :: "'a ndarray \<Rightarrow> bool" where
  "wf_array a \<longleftrightarrow> length (flat a) = prod_list (shape a)"

text \<open>
  The numeric library the code calls into: element-wise conjugation and conversion, the NaN
  that \<open>np.array(None, dtype=...)\<close> produces, the numeric kernel of \<open>@\<close> and the
  two decompositions. \<open>randomized_svd\<close> is called with \<open>random_state=0\<close>, hence a function
  of the matrix and the requested number of components; \<open>linalg_svd\<close> stands for
  \<open>scipy.linalg.svd(_, full_matrices=False)\<close>. Both return \<open>(U, s, Vh)\<close>.
\<close>

record 'a numerics =
  conjugate :: "'a \<Rightarrow> 'a"
  cast :: "dtype \<Rightarrow> 'a \<Rightarrow> 'a"
  nan :: 'a
  matmul_kernel :: "'a ndarray \<Rightarrow> 'a ndarray \<Rightarrow> error + 'a ndarray"
  randomized_svd :: "'a ndarray \<Rightarrow> int \<Rightarrow> error + ('a ndarray \<times> 'a ndarray \<times> 'a ndarray)"
  linalg_svd :: "'a ndarray \<Rightarrow> error + ('a ndarray \<times> 'a ndarray \<times> 'a ndarray)"

text \<open>All multi-indices of a shape in row-major order, and the flat position of one.\<close>

fun indices :: "nat list \<Rightarrow> nat list list" where
  "indices [] = [[]]"
| "indices (d # ds) = concat (map (\<lambda>i. map ((#) i) (indices ds)) [0..<d])"

fun offset :: "nat list \<Rightarrow> nat list \<Rightarrow> nat" where
  "offset (d # ds) (i # js) = i * prod_list ds + offset ds js"
| "offset _ _ = 0"

text \<open>\<open>a.T\<close>: the axes reversed (the identity below two dimensions).\<close>

definition ndarray_T :: "'a ndarray \<Rightarrow> 'a ndarray" where
  "ndarray_T a =
     a\<lparr>shape := rev (shape a),
       flat := map (\<lambda>idx. flat a ! offset (shape a) (rev idx)) (indices (rev (shape a)))\<rparr>"

text \<open>\<open>a.conj()\<close> and \<open>a.astype(dt)\<close>.\<close>

definition ndarray_conj :: "'a numerics \<Rightarrow> 'a ndarray \<Rightarrow> 'a ndarray" where
  "ndarray_conj L a = a\<lparr>flat := map (conjugate L) (flat a)\<rparr>"

definition astype :: "'a numerics \<Rightarrow> dtype \<Rightarrow> 'a ndarray \<Rightarrow> 'a ndarray" where
  "astype L dt a = a\<lparr>dtype := dt, flat := map (cast L dt) (flat a)\<rparr>"

text \<open>\<open>len(a)\<close>: the first axis; a 0-d array has no length.\<close>

definition len_nd :: "'a ndarray \<Rightarrow> error + nat" where
  "len_nd a = (case shape a of [] \<Rightarrow> Inl TypeError | d # _ \<Rightarrow> Inr d)"

text \<open>\<open>len(x)\<close> of an attribute that may hold \<open>None\<close>.\<close>

definition len_opt :: "'a ndarray option \<Rightarrow> error + nat" where
  "len_opt x = (case x of None \<Rightarrow> Inl TypeError | Some a \<Rightarrow> len_nd a)"

text \<open>The stop of a Python slice \<open>[:n]\<close> over an axis of the given length.\<close>

definition slice_stop :: "int \<Rightarrow> nat \<Rightarrow> nat" where
  "slice_stop n len = (if n < 0 then nat (max 0 (int len + n)) else min (nat n) len)"

text \<open>\<open>a[:n, :]\<close> and \<open>a[:, :n]\<close>; both need two axes.\<close>

definition slice_rows :: "int \<Rightarrow> 'a ndarray \<Rightarrow> error + 'a ndarray" where
  "slice_rows n a =
     (case shape a of
        d0 # d1 # ds \<Rightarrow>
          (let k = slice_stop n d0 in
           Inr (a\<lparr>shape := k # d1 # ds, flat := take (k * prod_list (d1 # ds)) (flat a)\<rparr>))
      | _ \<Rightarrow> Inl IndexError)"

definition slice_cols :: "int \<Rightarrow> 'a ndarray \<Rightarrow> error + 'a ndarray" where
  "slice_cols n a =
     (case shape a of
        d0 # d1 # ds \<Rightarrow>
          (let k = slice_stop n d1; r = prod_list ds in
           Inr (a\<lparr>shape := d0 # k # ds,
                  flat := concat (map (\<lambda>i. take (k * r) (drop (i * (d1 * r)) (flat a))) [0..<d0])\<rparr>))
      | _ \<Rightarrow> Inl IndexError)"

text \<open>Python's \<open>min\<close> of a shape tuple; the empty tuple has no minimum.\<close>

definition py_min :: "nat list \<Rightarrow> error + int" where
  "py_min xs = (case xs of [] \<Rightarrow> Inl (ValueError ''min() arg is an empty sequence'')
                | _ \<Rightarrow> Inr (int (Min (set xs))))"

section \<open>SVDBasis\<close>

text \<open>
  The attributes of an \<open>SVDBasis\<close>. \<open>None\<close> is Python's \<open>None\<close> for \<open>V\<close>, \<open>Vh\<close> and \<open>n\<close>;
  the attribute \<open>s\<close> does not exist before \<open>generate_basis\<close> has set it, which is
  \<open>None\<close> here as well.
\<close>

record 'a SVDBasis =
  basis_V :: "'a ndarray option"
  basis_Vh :: "'a ndarray option"
  basis_n :: "int option"
  basis_s :: "'a ndarray option"

definition SVDBasis_init :: "'a SVDBasis" where
  "SVDBasis_init = \<lparr>basis_V = None, basis_Vh = None, basis_n = None, basis_s = None\<rparr>"

definition generate_basis ::
  "'a numerics \<Rightarrow> 'a ndarray \<Rightarrow> int \<Rightarrow> string \<Rightarrow> 'a SVDBasis \<Rightarrow> error option \<times> 'a SVDBasis" where
  "generate_basis L training_data n method self =
     (if method = ''random'' then
        (case (if n = 0 then py_min (shape training_data) else Inr n) of
           Inl e \<Rightarrow> (Some e, self)
         | Inr n' \<Rightarrow>
             (case randomized_svd L training_data n' of
                Inl e \<Rightarrow> (Some e, self)
              | Inr (U, s, Vh) \<Rightarrow>
                  (let Vh' = astype L Complex64 Vh in
                   (None, self\<lparr>basis_Vh := Some Vh',
                               basis_V := Some (ndarray_conj L (ndarray_T Vh')),
                               basis_n := Some n',
                               basis_s := Some s\<rparr>))))
      else if method = ''scipy'' then
        (case linalg_svd L training_data of
           Inl e \<Rightarrow> (Some e, self)
         | Inr (U, s, Vh) \<Rightarrow>
             (let V = ndarray_conj L (ndarray_T Vh) in
              case (if n = 0 then Inr True
                    else case len_nd V of Inl e \<Rightarrow> Inl e | Inr l \<Rightarrow> Inr (n > int l)) of
                Inl e \<Rightarrow> (Some e, self)
              | Inr keep_all \<Rightarrow>
                  (case (if keep_all
                         then (None, self\<lparr>basis_V := Some V, basis_Vh := Some Vh\<rparr>)
                         else case slice_cols n V of
                                Inl e \<Rightarrow> (Some e, self)
                              | Inr V' \<Rightarrow>
                                  (case slice_rows n Vh of
                                     Inl e \<Rightarrow> (Some e, self\<lparr>basis_V := Some V'\<rparr>)
                                   | Inr Vh' \<Rightarrow>
                                       (None, self\<lparr>basis_V := Some V', basis_Vh := Some Vh'\<rparr>))) of
                     (Some e, self') \<Rightarrow> (Some e, self')
                   | (None, self') \<Rightarrow>
                       (case len_opt (basis_Vh self') of
                          Inl e \<Rightarrow> (Some e, self')
                        | Inr l \<Rightarrow> (None, self'\<lparr>basis_n := Some (int l), basis_s := Some s\<rparr>)))))
      else (Some (ValueError (''Unsupported SVD method: '' @ method @ ''.'')), self))"

subsection \<open>Persistence\<close>

text \<open>
  The \<open>.npy\<close> files, by name. \<open>np.save\<close> appends \<open>.npy\<close> to a file name that does not
  end with it; \<open>np.load\<close> opens the name it is given. Failures of the storage layer other
  than a missing file are not modelled.
\<close>

type_synonym 'a npy_store = "string \<rightharpoonup> 'a ndarray"

definition npy_name :: "string \<Rightarrow> string" where
  "npy_name filename =
     (if drop (length filename - 4) filename = ''.npy'' then filename else filename @ ''.npy'')"

definition np_save :: "'a npy_store \<Rightarrow> string \<Rightarrow> 'a ndarray \<Rightarrow> 'a npy_store" where
  "np_save fs filename a = fs(npy_name filename \<mapsto> a)"

definition np_load :: "'a npy_store \<Rightarrow> string \<Rightarrow> error + 'a ndarray" where
  "np_load fs filename =
     (case fs filename of None \<Rightarrow> Inl (FileNotFoundError filename) | Some a \<Rightarrow> Inr a)"

definition from_file ::
  "'a numerics \<Rightarrow> 'a npy_store \<Rightarrow> string \<Rightarrow> 'a SVDBasis \<Rightarrow> error option \<times> 'a SVDBasis" where
  "from_file L fs filename self =
     (case np_load fs filename of
        Inl e \<Rightarrow> (Some e, self)
      | Inr v \<Rightarrow>
          (let self' = self\<lparr>basis_V := Some v, basis_Vh := Some (ndarray_conj L (ndarray_T v))\<rparr> in
           case shape v of
             d0 # d1 # ds \<Rightarrow> (None, self'\<lparr>basis_n := Some (int d1)\<rparr>)
           | _ \<Rightarrow> (Some IndexError, self')))"

definition to_file ::
  "'a npy_store \<Rightarrow> string \<Rightarrow> 'a SVDBasis \<Rightarrow> error option \<times> 'a npy_store" where
  "to_file fs filename self =
     (case basis_V self of
        Some v \<Rightarrow> (None, np_save fs filename v)
      | None \<Rightarrow> (None, fs))"

text \<open>The relation between the stored pair: \<open>Vh = conj(V)^T\<close>, or both still \<open>None\<close>.\<close>

definition Vh_is_conj_transpose :: "'a numerics \<Rightarrow> 'a SVDBasis \<Rightarrow> bool" where
  "Vh_is_conj_transpose L b \<longleftrightarrow>
     (case basis_V b of
        None \<Rightarrow> basis_Vh b = None
      | Some v \<Rightarrow> basis_Vh b = Some (ndarray_conj L (ndarray_T v)))"

text \<open>
  What the \<open>scipy\<close> branch keeps of a two-dimensional \<open>Vh\<close> with \<open>r\<close> rows and \<open>c\<close>
  columns: all of it when \<open>n\<close> is 0 or exceeds \<open>len(V) = c\<close>, its rows \<open>[:n]\<close> otherwise.
\<close>

definition scipy_kept :: "int \<Rightarrow> 'a ndarray \<Rightarrow> 'a ndarray" where
  "scipy_kept n Vh =
     (case shape Vh of
        [r, c] \<Rightarrow> if n = 0 \<or> n > int c then Vh
                  else Vh\<lparr>shape := [slice_stop n r, c], flat := take (slice_stop n r * c) (flat Vh)\<rparr>
      | _ \<Rightarrow> Vh)"


section \<open>WaveformDataset\<close>

text \<open>
  What \<open>__getitem__\<close> returns: the nested record of the parameters and the two
  polarizations, or what the transform made of it. The transformed items the code reads
  (\<open>wfd[0][1]\<close>, \<open>data[1]\<close>) are pairs of parameters and a dictionary from channel names to
  arrays, with the keys in dictionary order.
\<close>

datatype ('a, 'p) item =
    Sample 'p "'a ndarray" "'a ndarray"
  | Transformed 'p "(string \<times> 'a ndarray) list"

type_synonym ('a, 'p) transform = "('a, 'p) item \<Rightarrow> error + ('a, 'p) item"

text \<open>
  The parts of an HDF5 dataset file that \<open>load\<close> reads; \<open>None\<close> is a missing key. The
  members of the group \<open>waveform_polarizations\<close> are listed in the order in which
  \<open>grp.keys()\<close> enumerates them.
\<close>

record ('a, 'p) h5file =
  h5_parameters :: "'p list option"
  h5_waveform_polarizations :: "(string \<times> 'a ndarray) list option"
  h5_rb_matrix_V :: "'a ndarray option"
  h5_settings :: "string option"

type_synonym ('a, 'p) h5_store = "string \<rightharpoonup> ('a, 'p) h5file"

text \<open>
  The collaborators outside the sources: \<open>ast.literal_eval\<close>, and of \<open>dingo.gw.domains\<close>
  the function \<open>build_domain\<close> (applied to the \<open>domain_settings\<close> entry of the settings) and
  the domain's \<open>__len__\<close>, \<open>set_new_range\<close> and \<open>truncate_data\<close>. \<open>set_new_range\<close> changes the
  domain object in place, so it returns the domain it leaves behind.
\<close>

record ('a, 'st, 'd, 'r) collaborators =
  literal_eval :: "string \<Rightarrow> error + 'st"
  build_domain :: "'st \<Rightarrow> error + 'd"
  domain_len :: "'d \<Rightarrow> nat"
  set_new_range :: "'r \<Rightarrow> 'd \<Rightarrow> error option \<times> 'd"
  truncate_data :: "'d \<Rightarrow> 'a ndarray \<Rightarrow> bool \<Rightarrow> error + 'a ndarray"

record ('a, 'p, 'st, 'd) WaveformDataset =
  wfd_transform :: "('a, 'p) transform option"
  wfd_Vh :: "'a ndarray option"
  wfd_single_precision :: bool
  wfd_parameter_samples :: "'p list"
  wfd_hc :: "'a ndarray"
  wfd_hp :: "'a ndarray"
  wfd_data_settings :: 'st
  wfd_domain :: 'd
  wfd_is_truncated :: bool

text \<open>
  \<open>np.array(x, dtype=dt)\<close> for an array or \<open>None\<close>: an array is copied and converted;
  \<open>None\<close> becomes a 0-d array holding NaN.
\<close>

definition np_array :: "'a numerics \<Rightarrow> 'a ndarray option \<Rightarrow> dtype \<Rightarrow> 'a ndarray" where
  "np_array L x dt =
     (case x of
        None \<Rightarrow> \<lparr>dtype = dt, shape = [], flat = [nan L]\<rparr>
      | Some a \<Rightarrow> astype L dt a)"

text \<open>
  \<open>load\<close>, given the attributes that \<open>__init__\<close> has set before it (\<open>transform\<close>, \<open>_Vh\<close>,
  \<open>single_precision\<close>). A failed \<open>load\<close> returns the error only: the object it leaves
  half-written is not followed further.
\<close>

definition load ::
  "'a numerics \<Rightarrow> ('a, 'st, 'd, 'r) collaborators \<Rightarrow> ('a, 'p) h5_store \<Rightarrow> string \<Rightarrow>
   ('a, 'p) transform option \<Rightarrow> 'a ndarray option \<Rightarrow> bool \<Rightarrow>
   error + ('a, 'p, 'st, 'd) WaveformDataset" where
  "load L E fs filename transform self_Vh single_precision =
     (case fs filename of
        None \<Rightarrow> Inl (FileNotFoundError filename)
      | Some fp \<Rightarrow>
     (case h5_parameters fp of
        None \<Rightarrow> Inl (KeyError ''parameters'')
      | Some parameter_array \<Rightarrow>
     (case h5_waveform_polarizations fp of
        None \<Rightarrow> Inl (KeyError ''waveform_polarizations'')
      | Some grp \<Rightarrow>
     if map fst grp \<noteq> [''h_cross'', ''h_plus''] then Inl (AssertionError [])
     else
     (case map_of grp ''h_cross'' of
        None \<Rightarrow> Inl (KeyError ''h_cross'')
      | Some hc \<Rightarrow>
     (case map_of grp ''h_plus'' of
        None \<Rightarrow> Inl (KeyError ''h_plus'')
      | Some hp \<Rightarrow>
     (let Vh = (case h5_rb_matrix_V fp of
                  Some V \<Rightarrow> Some (ndarray_conj L (ndarray_T V))
                | None \<Rightarrow> self_Vh)
      in
     (case h5_settings fp of
        None \<Rightarrow> Inl (KeyError ''settings'')
      | Some settings \<Rightarrow>
     (case literal_eval E settings of
        Inl e \<Rightarrow> Inl e
      | Inr data_settings \<Rightarrow>
     (case build_domain E data_settings of
        Inl e \<Rightarrow> Inl e
      | Inr domain \<Rightarrow>
     (let dt = (if single_precision then Complex64 else Complex128) in
      Inr \<lparr>wfd_transform = transform,
           wfd_Vh = Some (np_array L Vh dt),
           wfd_single_precision = single_precision,
           wfd_parameter_samples = parameter_array,
           wfd_hc = np_array L (Some hc) dt,
           wfd_hp = np_array L (Some hp) dt,
           wfd_data_settings = data_settings,
           wfd_domain = domain,
           wfd_is_truncated = False\<rparr>))))))))))"

definition WaveformDataset_init ::
  "'a numerics \<Rightarrow> ('a, 'st, 'd, 'r) collaborators \<Rightarrow> ('a, 'p) h5_store \<Rightarrow> string \<Rightarrow>
   ('a, 'p) transform option \<Rightarrow> bool \<Rightarrow> error + ('a, 'p, 'st, 'd) WaveformDataset" where
  "WaveformDataset_init L E fs dataset_file transform single_precision =
     load L E fs dataset_file transform None single_precision"

text \<open>An integer index into an axis of the given length; negative indices count from the end.\<close>

definition py_index :: "int \<Rightarrow> nat \<Rightarrow> error + nat" where
  "py_index idx len =
     (let i = (if idx < 0 then idx + int len else idx)
      in if 0 \<le> i \<and> i < int len then Inr (nat i) else Inl IndexError)"

text \<open>\<open>a[idx]\<close>: the sub-array at a position of the first axis.\<close>

definition nd_index :: "'a ndarray \<Rightarrow> int \<Rightarrow> error + 'a ndarray" where
  "nd_index a idx =
     (case shape a of
        [] \<Rightarrow> Inl IndexError
      | d # ds \<Rightarrow>
          (case py_index idx d of
             Inl e \<Rightarrow> Inl e
           | Inr i \<Rightarrow>
               Inr (a\<lparr>shape := ds,
                      flat := take (prod_list ds) (drop (i * prod_list ds) (flat a))\<rparr>)))"

text \<open>
  \<open>x @ y\<close>: \<open>matmul\<close> refuses an operand without dimensions; what it computes otherwise is
  left to the library.
\<close>

definition matmul :: "'a numerics \<Rightarrow> 'a ndarray \<Rightarrow> 'a ndarray \<Rightarrow> error + 'a ndarray" where
  "matmul L x y =
     (if shape x = [] \<or> shape y = []
      then Inl (ValueError ''matmul: Input operand does not have enough dimensions'')
      else matmul_kernel L x y)"

definition len_wfd :: "('a, 'p, 'st, 'd) WaveformDataset \<Rightarrow> nat" where
  "len_wfd self = length (wfd_parameter_samples self)"

definition getitem ::
  "'a numerics \<Rightarrow> ('a, 'p, 'st, 'd) WaveformDataset \<Rightarrow> int \<Rightarrow> error + ('a, 'p) item" where
  "getitem L self idx =
     (case py_index idx (length (wfd_parameter_samples self)) of
        Inl e \<Rightarrow> Inl e
      | Inr i \<Rightarrow>
     (let parameters = wfd_parameter_samples self ! i in
     (case nd_index (wfd_hc self) idx of
        Inl e \<Rightarrow> Inl e
      | Inr h_cross \<Rightarrow>
     (case nd_index (wfd_hp self) idx of
        Inl e \<Rightarrow> Inl e
      | Inr h_plus \<Rightarrow>
     (case (case wfd_Vh self of
              None \<Rightarrow> Inr (Sample parameters h_cross h_plus)
            | Some Vh \<Rightarrow>
                (case matmul L h_plus Vh of
                   Inl e \<Rightarrow> Inl e
                 | Inr h_plus' \<Rightarrow>
                     (case matmul L h_cross Vh of
                        Inl e \<Rightarrow> Inl e
                      | Inr h_cross' \<Rightarrow> Inr (Sample parameters h_cross' h_plus')))) of
        Inl e \<Rightarrow> Inl e
      | Inr data \<Rightarrow>
          (case wfd_transform self of
             None \<Rightarrow> Inr data
           | Some transform \<Rightarrow> transform data))))))"

text \<open>Decimal numbers and shape tuples as Python prints them in a message.\<close>

fun str_nat :: "nat \<Rightarrow> string" where
  "str_nat n =
     (if n < 10 then [''0123456789'' ! n]
      else str_nat (n div 10) @ [''0123456789'' ! (n mod 10)])"

fun str_items :: "nat list \<Rightarrow> string" where
  "str_items [] = []"
| "str_items [d] = str_nat d"
| "str_items (d # ds) = str_nat d @ '', '' @ str_items ds"

definition str_shape :: "nat list \<Rightarrow> string" where
  "str_shape ds =
     (case ds of [d] \<Rightarrow> ''('' @ str_nat d @ '',)'' | _ \<Rightarrow> ''('' @ str_items ds @ '')'')"

definition truncate_dataset_domain ::
  "('a, 'st, 'd, 'r) collaborators \<Rightarrow> 'r option \<Rightarrow> ('a, 'p, 'st, 'd) WaveformDataset \<Rightarrow>
   error option \<times> ('a, 'p, 'st, 'd) WaveformDataset" where
  "truncate_dataset_domain E new_range self =
     (if wfd_is_truncated self then (Some (ValueError ''Dataset is already truncated''), self)
      else
     (let len_domain_original = domain_len E (wfd_domain self) in
     (case (case new_range of
              None \<Rightarrow> (None, self)
            | Some r \<Rightarrow>
                (case set_new_range E r (wfd_domain self) of
                   (err, d) \<Rightarrow> (err, self\<lparr>wfd_domain := d\<rparr>))) of
        (Some e, self') \<Rightarrow> (Some e, self')
      | (None, self') \<Rightarrow>
          (case wfd_Vh self' of
             Some Vh \<Rightarrow>
               (if shape Vh = [] then (Some IndexError, self')
                else if last (shape Vh) \<noteq> len_domain_original
                then (Some (AssertionError
                        (''Compression matrix Vh with shape '' @ str_shape (shape Vh) @
                         '' is not compatible with the domain of length '' @
                         str_nat len_domain_original @ ''.'')), self')
                else
                  (case truncate_data E (wfd_domain self') Vh (new_range \<noteq> None) of
                     Inl e \<Rightarrow> (Some e, self')
                   | Inr Vh' \<Rightarrow> (None, self'\<lparr>wfd_Vh := Some Vh', wfd_is_truncated := True\<rparr>)))
           | None \<Rightarrow>
               (Some (NotImplementedError
                  ''Truncation of the dataset is currently only implemented for compressed polarization data.''),
                self')))))"

section \<open>The reduced-basis builder\<close>

subsection \<open>Array operations of the collecting loop\<close>

text \<open>
  \<open>np.empty(shape, dtype)\<close>: the contents are whatever the memory holds, given here by a
  function of the position.
\<close>

definition np_empty :: "(nat \<Rightarrow> 'a) \<Rightarrow> nat list \<Rightarrow> dtype \<Rightarrow> 'a ndarray" where
  "np_empty g sh dt = \<lparr>dtype = dt, shape = sh, flat = map g [0..<prod_list sh]\<rparr>"

text \<open>\<open>a[:n]\<close>, a slice of the first axis.\<close>

definition slice_first :: "int \<Rightarrow> 'a ndarray \<Rightarrow> error + 'a ndarray" where
  "slice_first n a =
     (case shape a of
        [] \<Rightarrow> Inl IndexError
      | d0 # ds \<Rightarrow>
          (let k = slice_stop n d0 in
           Inr (a\<lparr>shape := k # ds, flat := take (k * prod_list ds) (flat a)\<rparr>)))"

text \<open>
  The elements of a value broadcast to a target shape, in the row-major order of the
  target: leading axes of length one in excess are dropped, missing leading axes are added
  with length one, and then every axis must have the target's length or length one.
\<close>

fun strip_ones :: "nat \<Rightarrow> nat list \<Rightarrow> nat list" where
  "strip_ones k (d # ds) = (if k < length (d # ds) \<and> d = 1 then strip_ones k ds else d # ds)"
| "strip_ones k [] = []"

definition broadcast_to :: "'a ndarray \<Rightarrow> nat list \<Rightarrow> error + 'a list" where
  "broadcast_to v target =
     (let vs = strip_ones (length target) (shape v);
          vs' = replicate (length target - length vs) 1 @ vs
      in if length vs \<le> length target \<and> list_all2 (\<lambda>d t. d = t \<or> d = 1) vs' target
         then Inr (map (\<lambda>idx. flat v ! offset vs' (map2 (\<lambda>d i. if d = 1 then 0 else i) vs' idx))
                     (indices target))
         else Inl (ValueError ''could not broadcast input array''))"

text \<open>
  \<open>buf[lo:hi] = v\<close> on the first axis of \<open>buf\<close>: the value is broadcast to the shape of the
  slice and converted to the element type of \<open>buf\<close>.
\<close>

definition assign_rows ::
  "'a numerics \<Rightarrow> 'a ndarray \<Rightarrow> int \<Rightarrow> int \<Rightarrow> 'a ndarray \<Rightarrow> error + 'a ndarray" where
  "assign_rows L buf lo hi v =
     (case shape buf of
        [] \<Rightarrow> Inl IndexError
      | d0 # ds \<Rightarrow>
          (let start = slice_stop lo d0; stop = slice_stop hi d0; cnt = stop - start;
               r = prod_list ds
           in case broadcast_to v (cnt # ds) of
                Inl e \<Rightarrow> Inl e
              | Inr xs \<Rightarrow>
                  Inr (buf\<lparr>flat := take (start * r) (flat buf) @ map (cast L (dtype buf)) xs @
                                   drop ((start + cnt) * r) (flat buf)\<rparr>)))"

subsection \<open>The data loader\<close>

text \<open>
  \<open>DataLoader(wfd, batch_size, num_workers)\<close> yields the items \<open>wfd[0], wfd[1], ...\<close> in
  batches of \<open>batch_size\<close> consecutive indices, the last one shorter when the dataset ends,
  each collated: the parameters gathered, and for every channel of the first item the arrays
  of the batch stacked along a new first axis. An exception raised for an item or by the
  collation surfaces when the loop asks for that batch, so the batches are a list of results.
\<close>

function chunks :: "nat \<Rightarrow> 'b list \<Rightarrow> 'b list list" where
  "chunks n xs = (if n = 0 \<or> xs = [] then [] else take n xs # chunks n (drop n xs))"
  by pat_completeness auto
termination
  by (relation "measure (\<lambda>(n, xs). length xs)") auto

definition stack :: "'a ndarray list \<Rightarrow> error + 'a ndarray" where
  "stack as =
     (case as of
        [] \<Rightarrow> Inl RuntimeError
      | a # _ \<Rightarrow>
          if list_all (\<lambda>b. shape b = shape a) as
          then Inr \<lparr>dtype = dtype a, shape = length as # shape a, flat = concat (map flat as)\<rparr>
          else Inl RuntimeError)"

fun lookup_all :: "string \<Rightarrow> (string \<times> 'a ndarray) list list \<Rightarrow> error + 'a ndarray list" where
  "lookup_all k [] = Inr []"
| "lookup_all k (d # ds) =
     (case map_of d k of
        None \<Rightarrow> Inl (KeyError k)
      | Some a \<Rightarrow> (case lookup_all k ds of Inl e \<Rightarrow> Inl e | Inr as \<Rightarrow> Inr (a # as)))"

fun collate_dicts ::
  "string list \<Rightarrow> (string \<times> 'a ndarray) list list \<Rightarrow> error + (string \<times> 'a ndarray) list" where
  "collate_dicts [] ds = Inr []"
| "collate_dicts (k # ks) ds =
     (case lookup_all k ds of
        Inl e \<Rightarrow> Inl e
      | Inr as \<Rightarrow>
          (case stack as of
             Inl e \<Rightarrow> Inl e
           | Inr a \<Rightarrow>
               (case collate_dicts ks ds of Inl e \<Rightarrow> Inl e | Inr rest \<Rightarrow> Inr ((k, a) # rest))))"

fun fetch :: "(error + ('a, 'p) item) list \<Rightarrow> error + ('a, 'p) item list" where
  "fetch [] = Inr []"
| "fetch (Inl e # rs) = Inl e"
| "fetch (Inr x # rs) = (case fetch rs of Inl e \<Rightarrow> Inl e | Inr xs \<Rightarrow> Inr (x # xs))"

fun untuple :: "('a, 'p) item list \<Rightarrow> error + ('p list \<times> (string \<times> 'a ndarray) list list)" where
  "untuple [] = Inr ([], [])"
| "untuple (Transformed p d # xs) =
     (case untuple xs of Inl e \<Rightarrow> Inl e | Inr (ps, ds) \<Rightarrow> Inr (p # ps, d # ds))"
| "untuple (Sample p hc hp # xs) = Inl TypeError"

text \<open>
  One batch as the loop sees it, \<open>data[1]\<close> being its second component. A batch of untransformed
  records is collated to a dictionary, of which \<open>data[1]\<close> is a \<open>KeyError\<close>.
\<close>

definition collate ::
  "(error + ('a, 'p) item) list \<Rightarrow> error + ('p list \<times> (string \<times> 'a ndarray) list)" where
  "collate rs =
     (case fetch rs of
        Inl e \<Rightarrow> Inl e
      | Inr [] \<Rightarrow> Inl RuntimeError
      | Inr (Sample p hc hp # xs) \<Rightarrow> Inl (KeyError ''1'')
      | Inr (Transformed p d # xs) \<Rightarrow>
          (case untuple (Transformed p d # xs) of
             Inl e \<Rightarrow> Inl e
           | Inr (ps, ds) \<Rightarrow>
               (case collate_dicts (map fst d) ds of
                  Inl e \<Rightarrow> Inl e
                | Inr strain \<Rightarrow> Inr (ps, strain))))"

definition loader_batches ::
  "'a numerics \<Rightarrow> ('a, 'p, 'st, 'd) WaveformDataset \<Rightarrow> nat \<Rightarrow>
   (error + ('p list \<times> (string \<times> 'a ndarray) list)) list" where
  "loader_batches L wfd batch_size =
     map (\<lambda>batch. collate (map (\<lambda>i. getitem L wfd (int i)) batch))
       (chunks batch_size [0..<len_wfd wfd])"

subsection \<open>generate_and_save_reduced_basis\<close>

text \<open>
  The body of \<open>for k in rb_train_data.keys()\<close>: every buffer receives the first \<open>n\<close> rows of
  its channel of the batch at the rows \<open>lower, ..., lower + n - 1\<close>.
\<close>

fun assign_all ::
  "'a numerics \<Rightarrow> (string \<times> 'a ndarray) list \<Rightarrow> (string \<times> 'a ndarray) list \<Rightarrow> int \<Rightarrow> int \<Rightarrow>
   error + (string \<times> 'a ndarray) list" where
  "assign_all L [] strain_data lower n = Inr []"
| "assign_all L ((k, buf) # rest) strain_data lower n =
     (case map_of strain_data k of
        None \<Rightarrow> Inl (KeyError k)
      | Some a \<Rightarrow>
          (case slice_first n a of
             Inl e \<Rightarrow> Inl e
           | Inr v \<Rightarrow>
               (case assign_rows L buf lower (lower + n) v of
                  Inl e \<Rightarrow> Inl e
                | Inr buf' \<Rightarrow>
                    (case assign_all L rest strain_data lower n of
                       Inl e \<Rightarrow> Inl e
                     | Inr rest' \<Rightarrow> Inr ((k, buf') # rest')))))"

text \<open>
  The loop \<open>for idx, data in enumerate(rb_loader)\<close>, from the batch with number \<open>idx\<close> on. It
  ends with the \<open>break\<close> or when the loader has no further batch.
\<close>

fun rb_loop ::
  "'a numerics \<Rightarrow> int \<Rightarrow> int \<Rightarrow> nat \<Rightarrow>
   (error + ('p list \<times> (string \<times> 'a ndarray) list)) list \<Rightarrow> (string \<times> 'a ndarray) list \<Rightarrow>
   error + (string \<times> 'a ndarray) list" where
  "rb_loop L N batch_size idx [] rb_train_data = Inr rb_train_data"
| "rb_loop L N batch_size idx (Inl e # batches) rb_train_data = Inl e"
| "rb_loop L N batch_size idx (Inr data # batches) rb_train_data =
     (let strain_data = snd data;
          lower = int idx * batch_size;
          n = min batch_size (N - lower)
      in case assign_all L rb_train_data strain_data lower n of
           Inl e \<Rightarrow> Inl e
         | Inr rb_train_data' \<Rightarrow>
             if lower + n = N then Inr rb_train_data'
             else rb_loop L N batch_size (Suc idx) batches rb_train_data')"

text \<open>
  The lines from the probe \<open>wfd[0]\<close> to the end of the loop, on the dataset that already
  carries \<open>transforms_rb\<close>; the result is \<open>rb_train_data\<close>. \<open>G ifo\<close> gives the uninitialised
  contents of the buffer of the channel \<open>ifo\<close>.
\<close>

definition collect_rb_train_data ::
  "'a numerics \<Rightarrow> (string \<Rightarrow> nat \<Rightarrow> 'a) \<Rightarrow> ('a, 'p, 'st, 'd) WaveformDataset \<Rightarrow> int \<Rightarrow> int \<Rightarrow> int \<Rightarrow>
   error + (string \<times> 'a ndarray) list" where
  "collect_rb_train_data L G wfd N batch_size num_workers =
     (case getitem L wfd 0 of
        Inl e \<Rightarrow> Inl e
      | Inr (Sample p hc hp) \<Rightarrow> Inl (KeyError ''1'')
      | Inr (Transformed p strain) \<Rightarrow>
          (case map fst strain of
             [] \<Rightarrow> Inl IndexError
           | ifo0 # ifos \<Rightarrow>
               (case map_of strain ifo0 of
                  None \<Rightarrow> Inl (KeyError ifo0)
                | Some a \<Rightarrow>
                    (case len_nd a of
                       Inl e \<Rightarrow> Inl e
                     | Inr M \<Rightarrow>
                         if N < 0 then Inl (ValueError ''negative dimensions are not allowed'')
                         else
                           (let rb_train_data =
                                  map (\<lambda>ifo. (ifo, np_empty (G ifo) [nat N, M] Complex128))
                                    (ifo0 # ifos)
                            in if num_workers < 0
                               then Inl (ValueError ''num_workers option should be non-negative'')
                               else if batch_size \<le> 0
                               then Inl (ValueError ''batch_size should be a positive integer value'')
                               else rb_loop L N batch_size 0
                                      (loader_batches L wfd (nat batch_size)) rb_train_data)))))"

text \<open>\<open>os.path.join\<close> of two components.\<close>

definition path_join :: "string \<Rightarrow> string \<Rightarrow> string" where
  "path_join a b =
     (if b \<noteq> [] \<and> hd b = CHR ''/'' then b
      else if a = [] \<or> last a = CHR ''/'' then a @ b
      else a @ ''/'' @ b)"

text \<open>One basis per channel, by \<open>generate_basis\<close> with its default method.\<close>

fun generate_bases ::
  "'a numerics \<Rightarrow> (string \<times> 'a ndarray) list \<Rightarrow> int \<Rightarrow> error + (string \<times> 'a SVDBasis) list" where
  "generate_bases L [] n_rb = Inr []"
| "generate_bases L ((ifo, buf) # rest) n_rb =
     (case generate_basis L buf n_rb ''random'' SVDBasis_init of
        (Some e, basis) \<Rightarrow> Inl e
      | (None, basis) \<Rightarrow>
          (case generate_bases L rest n_rb of
             Inl e \<Rightarrow> Inl e
           | Inr basis_dict \<Rightarrow> Inr ((ifo, basis) # basis_dict)))"

text \<open>
  Saving: for every channel the matrix \<open>V\<close> and the singular values. \<open>generate_basis\<close> has
  set \<open>s\<close> for every basis that gets here.
\<close>

fun save_bases ::
  "'a npy_store \<Rightarrow> (string \<times> 'a SVDBasis) list \<Rightarrow> string \<Rightarrow> string \<Rightarrow>
   error + ('a npy_store \<times> string list)" where
  "save_bases fs [] out_dir suffix = Inr (fs, [])"
| "save_bases fs ((ifo, basis) # rest) out_dir suffix =
     (case to_file fs (path_join out_dir (''V_'' @ ifo @ suffix @ ''.npy'')) basis of
        (Some e, fs') \<Rightarrow> Inl e
      | (None, fs') \<Rightarrow>
          (case basis_s basis of
             None \<Rightarrow> Inl (AttributeError ''s'')
           | Some s \<Rightarrow>
               (case save_bases
                       (np_save fs' (path_join out_dir (''s_'' @ ifo @ suffix @ ''.npy'')) s)
                       rest out_dir suffix of
                  Inl e \<Rightarrow> Inl e
                | Inr (fs'', V_paths) \<Rightarrow>
                    Inr (fs'', path_join out_dir (''V_'' @ ifo @ suffix @ ''.npy'') # V_paths))))"

text \<open>
  The function. It returns \<open>V_paths\<close> or the exception, the dataset as it leaves it, and the
  files. An exception leaves the dataset with \<open>transforms_rb\<close>; files written before an
  exception in the saving loop are not followed further.
\<close>

definition generate_and_save_reduced_basis ::
  "'a numerics \<Rightarrow> (string \<Rightarrow> nat \<Rightarrow> 'a) \<Rightarrow> 'a npy_store \<Rightarrow> ('a, 'p, 'st, 'd) WaveformDataset \<Rightarrow>
   ('a, 'p) transform option \<Rightarrow> int \<Rightarrow> int \<Rightarrow> int \<Rightarrow> int \<Rightarrow> string option \<Rightarrow> string \<Rightarrow>
   (error + string list) \<times> ('a, 'p, 'st, 'd) WaveformDataset \<times> 'a npy_store" where
  "generate_and_save_reduced_basis L G fs wfd transforms_rb N batch_size num_workers n_rb out_dir
       suffix =
     (let wfd_transform_original = wfd_transform wfd;
          wfd' = wfd\<lparr>wfd_transform := transforms_rb\<rparr>
      in case collect_rb_train_data L G wfd' N batch_size num_workers of
           Inl e \<Rightarrow> (Inl e, wfd', fs)
         | Inr rb_train_data \<Rightarrow>
             (case generate_bases L rb_train_data n_rb of
                Inl e \<Rightarrow> (Inl e, wfd', fs)
              | Inr basis_dict \<Rightarrow>
                  (case (case out_dir of
                           None \<Rightarrow> Inr (fs, [])
                         | Some dir \<Rightarrow> save_bases fs basis_dict dir suffix) of
                     Inl e \<Rightarrow> (Inl e, wfd', fs)
                   | Inr (fs', V_paths) \<Rightarrow>
                       (Inr V_paths, wfd'\<lparr>wfd_transform := wfd_transform_original\<rparr>, fs'))))"

subsection \<open>What the buffers are to hold\<close>

text \<open>
  The first \<open>m\<close> rows of a channel of the source, converted to the element type of the
  buffer, in row-major order; and the buffer of \<open>N\<close> rows of length \<open>M\<close> in which \<open>m\<close> rows
  have been filled and the others still hold what \<open>np.empty\<close> left there.
\<close>

definition training_rows :: "'a numerics \<Rightarrow> (nat \<Rightarrow> 'a ndarray) \<Rightarrow> nat \<Rightarrow> 'a list" where
  "training_rows L rows m = concat (map (\<lambda>i. map (cast L Complex128) (flat (rows i))) [0..<m])"

definition filled_buffer ::
  "'a numerics \<Rightarrow> (nat \<Rightarrow> 'a) \<Rightarrow> (nat \<Rightarrow> 'a ndarray) \<Rightarrow> nat \<Rightarrow> nat \<Rightarrow> nat \<Rightarrow> 'a ndarray" where
  "filled_buffer L g rows N M m =
     \<lparr>dtype = Complex128, shape = [N, M], flat = training_rows L rows m @ map g [m * M..<N * M]\<rparr>"

section \<open>A concrete numeric library for examples\<close>

text \<open>
  Complex numbers with integer parts (exactly representable in every floating-point
  format used here, so that conversion leaves them as they are) and NaN. The
  decompositions of \<open>example_numerics\<close> fail; an example that needs one supplies its
  result.
\<close>

datatype gauss = Gauss int int | GNaN

fun gauss_conj :: "gauss \<Rightarrow> gauss" where
  "gauss_conj (Gauss a b) = Gauss a (- b)"
| "gauss_conj GNaN = GNaN"

definition example_numerics :: "gauss numerics" where
  "example_numerics =
     \<lparr>conjugate = gauss_conj, cast = (\<lambda>_ x. x), nan = GNaN,
      matmul_kernel = (\<lambda>_ _. Inl RuntimeError),
      randomized_svd = (\<lambda>_ _. Inl RuntimeError),
      linalg_svd = (\<lambda>_. Inl RuntimeError)\<rparr>"

definition matrix :: "dtype \<Rightarrow> nat \<Rightarrow> nat \<Rightarrow> 'a list \<Rightarrow> 'a ndarray" where
  "matrix dt r c xs = \<lparr>dtype = dt, shape = [r, c], flat = xs\<rparr>"

definition vector :: "dtype \<Rightarrow> 'a list \<Rightarrow> 'a ndarray" where
  "vector dt xs = \<lparr>dtype = dt, shape = [length xs], flat = xs\<rparr>"

text \<open>
  A training matrix with its singular value decomposition: the rows \<open>(2i, 0, 0)\<close> and
  \<open>(0, 1, 0)\<close> are \<open>U @ diag(s) @ Vh\<close> for the identity \<open>U\<close>, \<open>s = (2, 1)\<close> and
  \<open>Vh\<close> with the rows \<open>(i, 0, 0)\<close> and \<open>(0, 1, 0)\<close>. \<open>example_svd\<close> returns its first
  \<open>k\<close> components, at most the two there are, as both decompositions do for a matrix of
  two rows.
\<close>

definition example_training :: "gauss ndarray" where
  "example_training =
     matrix Complex128 2 3 [Gauss 0 2, Gauss 0 0, Gauss 0 0, Gauss 0 0, Gauss 1 0, Gauss 0 0]"

definition example_svd :: "int \<Rightarrow> gauss ndarray \<times> gauss ndarray \<times> gauss ndarray" where
  "example_svd k =
     (if k = 1 then
        (matrix Complex128 2 1 [Gauss 1 0, Gauss 0 0],
         vector Float64 [Gauss 2 0],
         matrix Complex128 1 3 [Gauss 0 1, Gauss 0 0, Gauss 0 0])
      else
        (matrix Complex128 2 2 [Gauss 1 0, Gauss 0 0, Gauss 0 0, Gauss 1 0],
         vector Float64 [Gauss 2 0, Gauss 1 0],
         matrix Complex128 2 3 [Gauss 0 1, Gauss 0 0, Gauss 0 0, Gauss 0 0, Gauss 1 0, Gauss 0 0]))"

definition example_svd_numerics :: "gauss numerics" where
  "example_svd_numerics =
     example_numerics
       \<lparr>randomized_svd :=
          (\<lambda>a k. if a = example_training \<and> 0 < k then Inr (example_svd k) else Inl RuntimeError),
        linalg_svd :=
          (\<lambda>a. if a = example_training then Inr (example_svd 2) else Inl RuntimeError)\<rparr>"

section \<open>An example dataset\<close>

text \<open>
  Modelled from the spec: the domain collaborator, of which the sources hold only the calls
  (\<open>dingo.gw.domains\<close> is not among them). The example domain is a uniform grid of the
  integer frequencies \<open>0, ..., f_max\<close> with a lower bound \<open>f_min\<close>: its length is the
  number of grid points, \<open>set_new_range\<close> adopts new bounds inside the grid, and
  \<open>truncate_data\<close> keeps the columns \<open>f_min, ..., f_max\<close> of a matrix. The settings are
  kept as the string they are stored as.
\<close>

definition example_truncate_data ::
  "nat \<times> nat \<Rightarrow> 'a ndarray \<Rightarrow> bool \<Rightarrow> error + 'a ndarray" where
  "example_truncate_data d a flexible =
     (case (d, shape a) of
        ((f_min, f_max), [r, c]) \<Rightarrow>
          if f_max < c
          then Inr (a\<lparr>shape := [r, f_max + 1 - f_min],
                      flat := concat (map (\<lambda>i. take (f_max + 1 - f_min)
                                                  (drop (i * c + f_min) (flat a))) [0..<r])\<rparr>)
          else Inl (ValueError ''data does not cover the domain'')
      | _ \<Rightarrow> Inl (ValueError ''expected a matrix''))"

definition example_collaborators :: "(gauss, string, nat \<times> nat, nat \<times> nat) collaborators" where
  "example_collaborators =
     \<lparr>literal_eval = (\<lambda>s. Inr s),
      build_domain = (\<lambda>st. Inr (0, 2)),
      domain_len = (\<lambda>(f_min, f_max). f_max + 1),
      set_new_range =
        (\<lambda>(lo, hi) (f_min, f_max).
           if lo \<le> hi \<and> hi \<le> f_max then (None, (lo, hi))
           else (Some (ValueError ''range outside of the domain''), (f_min, f_max))),
      truncate_data = example_truncate_data\<rparr>"

text \<open>
  A dataset file of two samples over three frequencies without \<open>rb_matrix_V\<close>, and the same
  file with the two polarizations enumerated in the other order.
\<close>

definition example_h_cross :: "gauss ndarray" where
  "example_h_cross =
     matrix Complex128 2 3 [Gauss 1 0, Gauss 0 1, Gauss 2 0, Gauss 0 0, Gauss 1 1, Gauss 0 2]"

definition example_h_plus :: "gauss ndarray" where
  "example_h_plus =
     matrix Complex128 2 3 [Gauss 0 1, Gauss 1 0, Gauss 0 2, Gauss 1 1, Gauss 0 0, Gauss 2 0]"

definition example_file :: "(gauss, (string \<times> int) list) h5file" where
  "example_file =
     \<lparr>h5_parameters = Some [[(''mass_1'', 35), (''mass_2'', 30)], [(''mass_1'', 36), (''mass_2'', 29)]],
      h5_waveform_polarizations = Some [(''h_cross'', example_h_cross), (''h_plus'', example_h_plus)],
      h5_rb_matrix_V = None,
      h5_settings = Some ''domain_settings''\<rparr>"

definition example_file_swapped :: "(gauss, (string \<times> int) list) h5file" where
  "example_file_swapped =
     example_file
       \<lparr>h5_waveform_polarizations :=
          Some [(''h_plus'', example_h_plus), (''h_cross'', example_h_cross)]\<rparr>"

definition example_store :: "(gauss, (string \<times> int) list) h5_store" where
  "example_store =
     [''waveform_dataset.h5'' \<mapsto> example_file, ''swapped.h5'' \<mapsto> example_file_swapped]"

text \<open>
  The attributes that \<open>load\<close> reads from the example file, with \<open>_Vh\<close> still \<open>None\<close> as
  \<open>__init__\<close> sets it.
\<close>

definition example_dataset ::
  "(gauss, (string \<times> int) list, string, nat \<times> nat) WaveformDataset" where
  "example_dataset =
     \<lparr>wfd_transform = None,
      wfd_Vh = None,
      wfd_single_precision = False,
      wfd_parameter_samples = [[(''mass_1'', 35), (''mass_2'', 30)], [(''mass_1'', 36), (''mass_2'', 29)]],
      wfd_hc = example_h_cross,
      wfd_hp = example_h_plus,
      wfd_data_settings = ''domain_settings'',
      wfd_domain = (0, 2),
      wfd_is_truncated = False\<rparr>"

text \<open>
  The object that the constructor builds from the example file: the conversion at the end
  of \<open>load\<close> has replaced the \<open>None\<close> of \<open>_Vh\<close> by a 0-d array.
\<close>

definition example_loaded ::
  "(gauss, (string \<times> int) list, string, nat \<times> nat) WaveformDataset" where
  "example_loaded =
     example_dataset\<lparr>wfd_Vh := Some \<lparr>dtype = Complex128, shape = [], flat = [GNaN]\<rparr>\<rparr>"

text \<open>
  A compressed dataset file: two samples with one basis coefficient each, and the
  \<open>rb_matrix_V\<close> of a basis of one element over the three frequencies, \<open>(0, -i, 0)\<close> as a
  column. \<open>example_compressed\<close> is the object that the constructor builds from it, with
  \<open>_Vh\<close> the row \<open>(0, i, 0)\<close>, and \<open>example_truncated\<close> is that object once its domain has
  been truncated to the range \<open>(1, 2)\<close>.
\<close>

definition example_file_compressed :: "(gauss, (string \<times> int) list) h5file" where
  "example_file_compressed =
     \<lparr>h5_parameters = Some [[(''mass_1'', 35), (''mass_2'', 30)], [(''mass_1'', 36), (''mass_2'', 29)]],
      h5_waveform_polarizations =
        Some [(''h_cross'', matrix Complex128 2 1 [Gauss 1 0, Gauss 0 1]),
              (''h_plus'', matrix Complex128 2 1 [Gauss 0 2, Gauss 1 1])],
      h5_rb_matrix_V = Some (matrix Complex128 3 1 [Gauss 0 0, Gauss 0 (- 1), Gauss 0 0]),
      h5_settings = Some ''domain_settings''\<rparr>"

definition example_store_compressed :: "(gauss, (string \<times> int) list) h5_store" where
  "example_store_compressed = [''compressed.h5'' \<mapsto> example_file_compressed]"

definition example_compressed ::
  "(gauss, (string \<times> int) list, string, nat \<times> nat) WaveformDataset" where
  "example_compressed =
     \<lparr>wfd_transform = None,
      wfd_Vh = Some (matrix Complex128 1 3 [Gauss 0 0, Gauss 0 1, Gauss 0 0]),
      wfd_single_precision = False,
      wfd_parameter_samples = [[(''mass_1'', 35), (''mass_2'', 30)], [(''mass_1'', 36), (''mass_2'', 29)]],
      wfd_hc = matrix Complex128 2 1 [Gauss 1 0, Gauss 0 1],
      wfd_hp = matrix Complex128 2 1 [Gauss 0 2, Gauss 1 1],
      wfd_data_settings = ''domain_settings'',
      wfd_domain = (0, 2),
      wfd_is_truncated = False\<rparr>"

definition example_truncated ::
  "(gauss, (string \<times> int) list, string, nat \<times> nat) WaveformDataset" where
  "example_truncated =
     example_compressed
       \<lparr>wfd_Vh := Some (matrix Complex128 1 2 [Gauss 0 1, Gauss 0 0]),
        wfd_domain := (1, 2),
        wfd_is_truncated := True\<rparr>"

section \<open>An example run of the builder\<close>

text \<open>
  A dataset of 25 samples over two frequencies. Of the first twenty \<open>h_plus\<close> rows, row 3 is
  \<open>(2i, 0)\<close> and row 11 is \<open>(0, 1)\<close>, and of the first twenty \<open>h_cross\<close> rows, row 5 is
  \<open>(3, 0)\<close> and row 7 is \<open>(0, 2)\<close>; the others of the first twenty are zero, and the rows
  from 20 on are not.
\<close>

definition example_hp_row :: "nat \<Rightarrow> gauss list" where
  "example_hp_row i =
     (if i = 3 then [Gauss 0 2, Gauss 0 0]
      else if i = 11 then [Gauss 0 0, Gauss 1 0]
      else if 20 \<le> i then [Gauss (int i) 0, Gauss 0 (int i)]
      else [Gauss 0 0, Gauss 0 0])"

definition example_hc_row :: "nat \<Rightarrow> gauss list" where
  "example_hc_row i =
     (if i = 5 then [Gauss 3 0, Gauss 0 0]
      else if i = 7 then [Gauss 0 0, Gauss 2 0]
      else if 20 \<le> i then [Gauss 1 (int i), Gauss (int i) 1]
      else [Gauss 0 0, Gauss 0 0])"

definition example_dataset25 ::
  "(gauss, (string \<times> int) list, string, nat \<times> nat) WaveformDataset" where
  "example_dataset25 =
     \<lparr>wfd_transform = None,
      wfd_Vh = None,
      wfd_single_precision = False,
      wfd_parameter_samples = map (\<lambda>i. [(''index'', int i)]) [0..<25],
      wfd_hc = matrix Complex128 25 2 (concat (map example_hc_row [0..<25])),
      wfd_hp = matrix Complex128 25 2 (concat (map example_hp_row [0..<25])),
      wfd_data_settings = ''domain_settings'',
      wfd_domain = (0, 1),
      wfd_is_truncated = False\<rparr>"

text \<open>
  A transform without noise: the strain of the channel \<open>H1\<close> is \<open>h_plus\<close> and the strain of
  \<open>L1\<close> is \<open>h_cross\<close>.
\<close>

definition example_transforms_rb :: "(gauss, (string \<times> int) list) transform" where
  "example_transforms_rb x =
     (case x of
        Sample p h_cross h_plus \<Rightarrow> Inr (Transformed p [(''H1'', h_plus), (''L1'', h_cross)])
      | Transformed p d \<Rightarrow> Inr (Transformed p d))"

text \<open>
  The training matrices of the two channels for \<open>N = 20\<close>, and their decompositions
  \<open>U @ diag(s) @ Vh\<close>: the columns of \<open>U\<close> are the unit vectors of the two rows that are not
  zero. \<open>example_builder_numerics\<close> decomposes these two matrices.
\<close>

definition example_train_H1 :: "gauss ndarray" where
  "example_train_H1 = matrix Complex128 20 2 (concat (map example_hp_row [0..<20]))"

definition example_train_L1 :: "gauss ndarray" where
  "example_train_L1 = matrix Complex128 20 2 (concat (map example_hc_row [0..<20]))"

definition unit_columns :: "nat \<Rightarrow> nat \<Rightarrow> gauss ndarray" where
  "unit_columns a b =
     matrix Complex128 20 2
       (concat (map (\<lambda>i. [if i = a then Gauss 1 0 else Gauss 0 0,
                           if i = b then Gauss 1 0 else Gauss 0 0]) [0..<20]))"

definition example_builder_numerics :: "gauss numerics" where
  "example_builder_numerics =
     example_numerics
       \<lparr>randomized_svd :=
          (\<lambda>a k.
             if k = 2 \<and> a = example_train_H1
             then Inr (unit_columns 3 11, vector Float64 [Gauss 2 0, Gauss 1 0],
                       matrix Complex128 2 2 [Gauss 0 1, Gauss 0 0, Gauss 0 0, Gauss 1 0])
             else if k = 2 \<and> a = example_train_L1
             then Inr (unit_columns 5 7, vector Float64 [Gauss 3 0, Gauss 2 0],
                       matrix Complex128 2 2 [Gauss 1 0, Gauss 0 0, Gauss 0 0, Gauss 1 0])
             else Inl RuntimeError)\<rparr>"

text \<open>The buffers of the example are uninitialised to NaN.\<close>

definition example_uninitialised :: "string \<Rightarrow> nat \<Rightarrow> gauss" where
  "example_uninitialised ifo k = GNaN"

text \<open>The strain of a channel of the example in the sample \<open>i\<close>.\<close>

definition example_strain :: "string \<Rightarrow> nat \<Rightarrow> gauss ndarray" where
  "example_strain ifo i =
     \<lparr>dtype = Complex128, shape = [2],
      flat = (if ifo = ''H1'' then example_hp_row i else example_hc_row i)\<rparr>"

section \<open>Index arithmetic\<close>

lemma concat_map_singleton: "concat (map (\<lambda>i. [f i]) xs) = map f xs"
  by (induction xs) auto

lemma upt_blocks: "concat (map (\<lambda>i. map (\<lambda>k. i * p + k) [0..<p]) [0..<d]) = [0..<d * p]"
proof (induction d)
  case 0
  show ?case by simp
next
  case (Suc d)
  have "map (\<lambda>k. d * p + k) [0..<p] = [d * p..<d * p + p]"
    by (simp add: map_add_upt add.commute)
  moreover have "[0..<d * p] @ [d * p..<d * p + p] = [0..<d * p + p]"
    using upt_add_eq_append [of 0 "d * p" p] by simp
  ultimately show ?case using Suc by (simp add: add.commute)
qed

lemma length_indices: "length (indices s) = prod_list s"
proof (induction s)
  case Nil show ?case by simp
next
  case (Cons d ds)
  have "length (indices (d # ds)) = sum_list (map (\<lambda>i. prod_list ds) [0..<d])"
    by (simp add: length_concat comp_def Cons)
  then show ?case by (simp add: sum_list_triv)
qed

lemma map_offset_indices: "map (offset s) (indices s) = [0..<prod_list s]"
proof (induction s)
  case Nil show ?case by simp
next
  case (Cons d ds)
  have "map (offset (d # ds)) (indices (d # ds)) =
        concat (map (\<lambda>i. map (\<lambda>k. i * prod_list ds + k) (map (offset ds) (indices ds))) [0..<d])"
    by (simp add: map_concat comp_def)
  also have "\<dots> = [0..<d * prod_list ds]"
    by (simp only: Cons upt_blocks)
  finally show ?case by simp
qed

lemma indices_iff: "idx \<in> set (indices s) \<longleftrightarrow> list_all2 (<) idx s"
proof (induction s arbitrary: idx)
  case Nil show ?case by auto
next
  case (Cons d ds)
  show ?case
  proof (cases idx)
    case Nil then show ?thesis by auto
  next
    case (Cons i js)
    then show ?thesis using Cons.IH [of js] by (auto simp: image_iff)
  qed
qed

lemma offset_less: "idx \<in> set (indices s) \<Longrightarrow> offset s idx < prod_list s"
proof -
  assume a: "idx \<in> set (indices s)"
  then have "offset s idx \<in> set (map (offset s) (indices s))" by simp
  then show ?thesis by (simp only: map_offset_indices) simp
qed

lemma indices_nth_offset:
  assumes "idx \<in> set (indices s)"
  shows "indices s ! offset s idx = idx"
proof -
  from assms obtain k where k: "k < length (indices s)" "indices s ! k = idx"
    by (auto simp: in_set_conv_nth)
  have "map (offset s) (indices s) ! k = [0..<prod_list s] ! k"
    by (simp only: map_offset_indices)
  with k have "offset s idx = k" by (simp add: length_indices)
  with k show ?thesis by simp
qed

lemma rev_in_indices: "idx \<in> set (indices s) \<Longrightarrow> rev idx \<in> set (indices (rev s))"
  by (simp add: indices_iff list_all2_rev)

lemma map_nth_offset:
  "length xs = prod_list s \<Longrightarrow> map (\<lambda>idx. xs ! offset s idx) (indices s) = xs"
proof -
  assume len: "length xs = prod_list s"
  have "map (\<lambda>idx. xs ! offset s idx) (indices s) = map ((!) xs) (map (offset s) (indices s))"
    by simp
  also have "\<dots> = map ((!) xs) [0..<length xs]"
    by (simp only: map_offset_indices len)
  finally show ?thesis by (simp add: map_nth)
qed

section \<open>Transposition, conjugation and slicing\<close>

lemma wf_array_T: "wf_array (ndarray_T a)"
  by (simp add: wf_array_def ndarray_T_def length_indices)

lemma ndarray_T_T: "wf_array a \<Longrightarrow> ndarray_T (ndarray_T a) = a"
proof -
  assume wf: "wf_array a"
  let ?s = "shape a"
  have "map (\<lambda>idx. flat (ndarray_T a) ! offset (rev ?s) (rev idx)) (indices ?s)
        = map (\<lambda>idx. flat a ! offset ?s idx) (indices ?s)"
  proof (rule map_cong [OF refl])
    fix idx assume i: "idx \<in> set (indices ?s)"
    then have r: "rev idx \<in> set (indices (rev ?s))" by (rule rev_in_indices)
    have "offset (rev ?s) (rev idx) < length (indices (rev ?s))"
      using offset_less [OF r] by (simp add: length_indices)
    then show "flat (ndarray_T a) ! offset (rev ?s) (rev idx) = flat a ! offset ?s idx"
      by (simp add: ndarray_T_def indices_nth_offset [OF r])
  qed
  also have "\<dots> = flat a"
    using wf by (simp add: map_nth_offset wf_array_def)
  finally show ?thesis
    by (simp add: ndarray_T_def)
qed

lemma ndarray_T_conj:
  "wf_array a \<Longrightarrow> ndarray_T (ndarray_conj L a) = ndarray_conj L (ndarray_T a)"
proof -
  assume wf: "wf_array a"
  have "map (\<lambda>idx. map (conjugate L) (flat a) ! offset (shape a) (rev idx)) (indices (rev (shape a)))
      = map (\<lambda>idx. conjugate L (flat a ! offset (shape a) (rev idx))) (indices (rev (shape a)))"
  proof (rule map_cong [OF refl])
    fix idx assume "idx \<in> set (indices (rev (shape a)))"
    then have "rev idx \<in> set (indices (shape a))"
      using rev_in_indices [of idx "rev (shape a)"] by simp
    then have "offset (shape a) (rev idx) < length (flat a)"
      using offset_less wf by (simp add: wf_array_def)
    then show "map (conjugate L) (flat a) ! offset (shape a) (rev idx)
               = conjugate L (flat a ! offset (shape a) (rev idx))"
      by simp
  qed
  then show ?thesis
    by (simp add: ndarray_T_def ndarray_conj_def comp_def)
qed

lemma ndarray_conj_conj:
  "(\<And>x. conjugate L (conjugate L x) = x) \<Longrightarrow> ndarray_conj L (ndarray_conj L a) = a"
  by (simp add: ndarray_conj_def comp_def)

lemma indices_1d: "indices [r] = map (\<lambda>i. [i]) [0..<r]"
  by (simp add: concat_map_singleton)

lemma flat_T_2d:
  "shape a = [r, c] \<Longrightarrow>
   flat (ndarray_T a) = concat (map (\<lambda>j. map (\<lambda>i. flat a ! (i * c + j)) [0..<r]) [0..<c])"
  by (simp add: ndarray_T_def map_concat comp_def concat_map_singleton)

lemma conj_T_2d:
  "shape a = [r, c] \<Longrightarrow>
   ndarray_conj L (ndarray_T a) =
     \<lparr>dtype = dtype a, shape = [c, r],
      flat = map (conjugate L) (concat (map (\<lambda>j. map (\<lambda>i. flat a ! (i * c + j)) [0..<r]) [0..<c]))\<rparr>"
  using flat_T_2d [of a r c] by (cases a) (simp add: ndarray_conj_def ndarray_T_def)

lemma drop_concat_uniform:
  "\<forall>x\<in>set xss. length x = r \<Longrightarrow> drop (j * r) (concat xss) = concat (drop j xss)"
proof (induction xss arbitrary: j)
  case Nil show ?case by simp
next
  case (Cons x xss)
  show ?case
  proof (cases j)
    case 0 then show ?thesis by simp
  next
    case (Suc j')
    with Cons show ?thesis by simp
  qed
qed

lemma take_drop_concat_uniform:
  assumes "\<forall>x\<in>set xss. length x = r" "j < length xss" "k \<le> r"
  shows "take k (drop (j * r) (concat xss)) = take k (xss ! j)"
proof -
  have "drop j xss = xss ! j # drop (Suc j) xss"
    using assms(2) by (simp add: Cons_nth_drop_Suc)
  moreover have "length (xss ! j) = r" using assms(1,2) by simp
  ultimately show ?thesis
    using assms(3) by (simp add: drop_concat_uniform [OF assms(1)])
qed

lemma slice_stop_le: "slice_stop n l \<le> l"
  by (auto simp: slice_stop_def)

lemma slice_commute:
  assumes sh: "shape a = [r, c]"
  shows "slice_rows n a = Inr (a\<lparr>shape := [slice_stop n r, c], flat := take (slice_stop n r * c) (flat a)\<rparr>)"
    and "slice_cols n (ndarray_conj L (ndarray_T a)) =
         Inr (ndarray_conj L (ndarray_T (a\<lparr>shape := [slice_stop n r, c],
                                           flat := take (slice_stop n r * c) (flat a)\<rparr>)))"
proof -
  let ?k = "slice_stop n r"
  let ?a' = "a\<lparr>shape := [?k, c], flat := take (?k * c) (flat a)\<rparr>"
  let ?row = "\<lambda>j. map (\<lambda>i. flat a ! (i * c + j)) [0..<r]"
  show "slice_rows n a = Inr ?a'" by (simp add: slice_rows_def sh Let_def)
  have k: "?k \<le> r" by (rule slice_stop_le)
  have lhs: "take ?k (drop (j * r) (map (conjugate L) (concat (map ?row [0..<c]))))
             = map (\<lambda>i. conjugate L (flat a ! (i * c + j))) [0..<?k]" if "j < c" for j
  proof -
    have "take ?k (drop (j * r) (concat (map ?row [0..<c]))) = take ?k (map ?row [0..<c] ! j)"
      by (rule take_drop_concat_uniform) (use that k in auto)
    also have "\<dots> = map (\<lambda>i. flat a ! (i * c + j)) [0..<?k]"
      using that k by (simp add: take_map min_def)
    finally have e: "take ?k (drop (j * r) (concat (map ?row [0..<c])))
                     = map (\<lambda>i. flat a ! (i * c + j)) [0..<?k]" .
    have "take ?k (drop (j * r) (map (conjugate L) (concat (map ?row [0..<c]))))
          = map (conjugate L) (take ?k (drop (j * r) (concat (map ?row [0..<c]))))"
      by (simp only: take_map drop_map)
    also have "\<dots> = map (\<lambda>i. conjugate L (flat a ! (i * c + j))) [0..<?k]"
      by (simp only: e) simp
    finally show ?thesis .
  qed
  have pt: "take (?k * c) (flat a) ! (i * c + j) = flat a ! (i * c + j)" if "j < c" "i < ?k" for i j
  proof -
    from that have "Suc i \<le> ?k" by simp
    then have "Suc i * c \<le> ?k * c" by (rule mult_le_mono1)
    with that have "i * c + j < ?k * c" by simp
    then show ?thesis by simp
  qed
  have "concat (map (\<lambda>j. take ?k (drop (j * r) (map (conjugate L) (concat (map ?row [0..<c]))))) [0..<c])
      = concat (map (\<lambda>j. map (\<lambda>i. conjugate L (flat a ! (i * c + j))) [0..<?k]) [0..<c])"
    by (rule arg_cong [where f = concat], rule map_cong [OF refl]) (simp add: lhs)
  moreover have "map (conjugate L) (concat (map (\<lambda>j. map (\<lambda>i. take (?k * c) (flat a) ! (i * c + j)) [0..<?k]) [0..<c]))
      = concat (map (\<lambda>j. map (\<lambda>i. conjugate L (flat a ! (i * c + j))) [0..<?k]) [0..<c])"
  proof -
    have m: "map (\<lambda>j. map (\<lambda>i. conjugate L (take (?k * c) (flat a) ! (i * c + j))) [0..<?k]) [0..<c]
        = map (\<lambda>j. map (\<lambda>i. conjugate L (flat a ! (i * c + j))) [0..<?k]) [0..<c]"
      by (intro map_cong refl) (simp add: pt)
    show ?thesis by (simp only: map_concat map_map comp_def m)
  qed
  ultimately show "slice_cols n (ndarray_conj L (ndarray_T a)) = Inr (ndarray_conj L (ndarray_T ?a'))"
    by (simp add: conj_T_2d [OF sh] conj_T_2d [of ?a' ?k c] slice_cols_def Let_def)
qed

lemma conj_T_involution:
  assumes "wf_array a" and "\<And>x. conjugate L (conjugate L x) = x"
  shows "ndarray_conj L (ndarray_T (ndarray_conj L (ndarray_T a))) = a"
proof -
  have "ndarray_T (ndarray_conj L (ndarray_T a)) = ndarray_conj L (ndarray_T (ndarray_T a))"
    by (rule ndarray_T_conj) (rule wf_array_T)
  then show ?thesis
    using assms by (simp add: ndarray_T_T ndarray_conj_conj)
qed

section \<open>The branches of \<open>generate_basis\<close>\<close>

lemma generate_basis_random:
  assumes "randomized_svd L td n = Inr (U, s, Vh)" and "n \<noteq> 0"
  shows "generate_basis L td n ''random'' b =
           (None, b\<lparr>basis_Vh := Some (astype L Complex64 Vh),
                     basis_V := Some (ndarray_conj L (ndarray_T (astype L Complex64 Vh))),
                     basis_n := Some n, basis_s := Some s\<rparr>)"
  using assms by (simp add: generate_basis_def Let_def)

lemma generate_basis_random_all:
  assumes "randomized_svd L td (int (Min (set (shape td)))) = Inr (U, s, Vh)" and "shape td \<noteq> []"
  shows "generate_basis L td 0 ''random'' b =
           (None, b\<lparr>basis_Vh := Some (astype L Complex64 Vh),
                     basis_V := Some (ndarray_conj L (ndarray_T (astype L Complex64 Vh))),
                     basis_n := Some (int (Min (set (shape td)))), basis_s := Some s\<rparr>)"
  using assms by (auto simp: generate_basis_def py_min_def Let_def split: list.splits)

lemma generate_basis_scipy:
  assumes "linalg_svd L td = Inr (U, s, Vh)" and sh: "shape Vh = [r, c]"
  shows "generate_basis L td n ''scipy'' b =
           (None, b\<lparr>basis_V := Some (ndarray_conj L (ndarray_T (scipy_kept n Vh))),
                     basis_Vh := Some (scipy_kept n Vh),
                     basis_n := Some (int (hd (shape (scipy_kept n Vh)))), basis_s := Some s\<rparr>)"
proof (cases "n = 0 \<or> n > int c")
  case True
  have "len_nd (ndarray_conj L (ndarray_T Vh)) = Inr c"
    by (simp add: len_nd_def ndarray_conj_def ndarray_T_def sh)
  with True assms show ?thesis
    by (auto simp: generate_basis_def scipy_kept_def len_opt_def len_nd_def)
next
  case False
  have "len_nd (ndarray_conj L (ndarray_T Vh)) = Inr c"
    by (simp add: len_nd_def ndarray_conj_def ndarray_T_def sh)
  with False assms slice_commute [OF sh, of n] slice_commute(2) [OF sh, of n L] show ?thesis
    by (simp add: generate_basis_def scipy_kept_def len_opt_def len_nd_def)
qed

section \<open>The stored pair\<close>

lemma wf_array_astype: "wf_array (astype L dt a) = wf_array a"
  by (simp add: wf_array_def astype_def)

lemma wf_scipy_kept: "wf_array Vh \<Longrightarrow> wf_array (scipy_kept n Vh)"
proof -
  assume wf: "wf_array Vh"
  have "slice_stop n r * c \<le> r * c" for r c
    by (rule mult_le_mono1) (rule slice_stop_le)
  with wf show ?thesis
    by (auto simp: scipy_kept_def wf_array_def split: list.splits)
qed

lemma random_preserves:
  assumes cj: "\<And>x. conjugate L (conjugate L x) = x"
    and rs: "\<And>a k U s Vh. randomized_svd L a k = Inr (U, s, Vh) \<Longrightarrow> wf_array Vh"
    and inv: "Vh_is_conj_transpose L b"
  shows "Vh_is_conj_transpose L (snd (generate_basis L td n ''random'' b))"
proof -
  have ok: "Vh_is_conj_transpose L
              (b\<lparr>basis_Vh := Some (astype L Complex64 Vh),
                 basis_V := Some (ndarray_conj L (ndarray_T (astype L Complex64 Vh))),
                 basis_n := Some k, basis_s := Some s\<rparr>)"
    if "randomized_svd L td k = Inr (U, s, Vh)" for k U s Vh
    using conj_T_involution [of "astype L Complex64 Vh" L] rs [OF that] cj
    by (simp add: Vh_is_conj_transpose_def wf_array_astype)
  show ?thesis
    using inv ok
    by (auto simp: generate_basis_def Let_def split: sum.splits prod.splits)
qed

lemma scipy_preserves:
  assumes cj: "\<And>x. conjugate L (conjugate L x) = x"
    and ss: "\<And>a U s Vh. linalg_svd L a = Inr (U, s, Vh) \<Longrightarrow> wf_array Vh \<and> length (shape Vh) = 2"
    and inv: "Vh_is_conj_transpose L b"
  shows "Vh_is_conj_transpose L (snd (generate_basis L td n ''scipy'' b))"
proof (cases "linalg_svd L td")
  case (Inl e)
  with inv show ?thesis by (simp add: generate_basis_def)
next
  case (Inr r)
  obtain U s Vh where r: "r = (U, s, Vh)" by (cases r)
  from ss [of td U s Vh] Inr r have wf: "wf_array Vh" and "length (shape Vh) = 2" by simp_all
  then obtain d0 d1 where sh: "shape Vh = [d0, d1]"
    by (cases "shape Vh"; cases "tl (shape Vh)") auto
  show ?thesis
    using conj_T_involution [OF wf_scipy_kept [OF wf], of L n] cj Inr r
    by (simp add: generate_basis_scipy [OF _ sh] Vh_is_conj_transpose_def)
qed

lemma from_file_preserves:
  assumes inv: "Vh_is_conj_transpose L b"
  shows "Vh_is_conj_transpose L (snd (from_file L fs filename b))"
  using inv
  by (auto simp: from_file_def np_load_def Vh_is_conj_transpose_def Let_def
           split: option.splits list.splits)

lemma populated_on_success:
  "generate_basis L td n method b = (None, b') \<Longrightarrow> basis_V b' \<noteq> None"
  "from_file L fs filename b = (None, b') \<Longrightarrow> basis_V b' \<noteq> None"
  by (auto simp: generate_basis_def from_file_def np_load_def Let_def
           split: sum.splits prod.splits option.splits list.splits if_splits)

section \<open>Unsupported decomposition methods\<close>

text \<open>
  C4. With a method string other than \<open>random\<close> and \<open>scipy\<close>, \<open>generate_basis\<close> raises a
  \<open>ValueError\<close> whose message contains the method string, and the basis object is left exactly
  as it was. The statement holds for every numeric library \<open>L\<close>, also one whose
  decompositions would fail or not be defined on the training data: no decomposition is
  consulted on this path.
\<close>

theorem generate_basis_unsupported_method:
  "method \<noteq> ''random'' \<Longrightarrow> method \<noteq> ''scipy'' \<Longrightarrow>
   generate_basis L training_data n method self =
     (Some (ValueError (''Unsupported SVD method: '' @ method @ ''.'')), self)"
  by (simp add: generate_basis_def)

theorem generate_basis_unsupported_method_witness:
  "''qr'' \<noteq> ''random'' \<and> ''qr'' \<noteq> ''scipy'' \<and>
   generate_basis example_numerics (matrix Complex128 1 2 [Gauss 1 0, Gauss 0 1]) 3 ''qr''
       SVDBasis_init =
     (Some (ValueError ''Unsupported SVD method: qr.''), SVDBasis_init)"
  using generate_basis_unsupported_method
          [of "''qr''" example_numerics "matrix Complex128 1 2 [Gauss 1 0, Gauss 0 1]" 3
              SVDBasis_init]
  by simp

section \<open>Evaluating the examples\<close>

lemmas example_defs =
  example_svd_numerics_def example_numerics_def example_training_def example_svd_def
  SVDBasis_init_def matrix_def vector_def

lemma gauss_conj_involution: "gauss_conj (gauss_conj x) = x"
  by (cases x) simp_all

section \<open>The stored pair is kept in step\<close>

text \<open>
  C7. Whatever its outcome, each populating operation leaves \<open>Vh = conj(V)^T\<close> (as arrays:
  same element type tag, same shape, same elements) when it held before, and after a
  normal return \<open>V\<close> is populated.
\<close>

theorem basis_pair_invariant:
  assumes "\<forall>x. conjugate L (conjugate L x) = x"
    and "\<forall>a k U s Vh. randomized_svd L a k = Inr (U, s, Vh) \<longrightarrow> wf_array Vh"
    and "\<forall>a U s Vh. linalg_svd L a = Inr (U, s, Vh) \<longrightarrow> wf_array Vh \<and> length (shape Vh) = 2"
    and "Vh_is_conj_transpose L b"
  shows "Vh_is_conj_transpose L (snd (generate_basis L td n ''random'' b)) \<and>
         Vh_is_conj_transpose L (snd (generate_basis L td n ''scipy'' b)) \<and>
         Vh_is_conj_transpose L (snd (from_file L fs filename b)) \<and>
         (fst (generate_basis L td n ''random'' b) = None \<longrightarrow>
            basis_V (snd (generate_basis L td n ''random'' b)) \<noteq> None) \<and>
         (fst (generate_basis L td n ''scipy'' b) = None \<longrightarrow>
            basis_V (snd (generate_basis L td n ''scipy'' b)) \<noteq> None) \<and>
         (fst (from_file L fs filename b) = None \<longrightarrow>
            basis_V (snd (from_file L fs filename b)) \<noteq> None)"
proof -
  have 1: "Vh_is_conj_transpose L (snd (generate_basis L td n ''random'' b))"
    by (rule random_preserves) (use assms in blast)+
  have 2: "Vh_is_conj_transpose L (snd (generate_basis L td n ''scipy'' b))"
    by (rule scipy_preserves) (use assms in blast)+
  have 3: "Vh_is_conj_transpose L (snd (from_file L fs filename b))"
    by (rule from_file_preserves) (rule assms(4))
  have 4: "fst r = None \<Longrightarrow> r = (None, snd r)" for r :: "error option \<times> 'a SVDBasis"
    by (cases r) simp
  show ?thesis
    using 1 2 3 populated_on_success(1) [OF 4] populated_on_success(2) [OF 4]
    by blast
qed

theorem basis_pair_invariant_witness:
  "Vh_is_conj_transpose example_svd_numerics SVDBasis_init \<and>
   fst (generate_basis example_svd_numerics example_training 1 ''scipy'' SVDBasis_init) = None \<and>
   Vh_is_conj_transpose example_svd_numerics
     (snd (generate_basis example_svd_numerics example_training 1 ''scipy'' SVDBasis_init)) \<and>
   basis_V (snd (generate_basis example_svd_numerics example_training 1 ''scipy'' SVDBasis_init))
     = Some (matrix Complex128 3 1 [Gauss 0 (- 1), Gauss 0 0, Gauss 0 0]) \<and>
   fst (generate_basis example_svd_numerics example_training 1 ''random'' SVDBasis_init) = None \<and>
   Vh_is_conj_transpose example_svd_numerics
     (snd (generate_basis example_svd_numerics example_training 1 ''random'' SVDBasis_init)) \<and>
   basis_V (snd (generate_basis example_svd_numerics example_training 1 ''random'' SVDBasis_init))
     = Some (matrix Complex64 3 1 [Gauss 0 (- 1), Gauss 0 0, Gauss 0 0])"
proof -
  have h1: "\<forall>x. conjugate example_svd_numerics (conjugate example_svd_numerics x) = x"
    by (simp add: example_defs gauss_conj_involution)
  have h2: "\<forall>a k U s Vh. randomized_svd example_svd_numerics a k = Inr (U, s, Vh) \<longrightarrow> wf_array Vh"
    by (auto simp: example_defs wf_array_def split: if_splits)
  have h3: "\<forall>a U s Vh. linalg_svd example_svd_numerics a = Inr (U, s, Vh) \<longrightarrow>
              wf_array Vh \<and> length (shape Vh) = 2"
    by (auto simp: example_defs wf_array_def split: if_splits)
  have h4: "Vh_is_conj_transpose example_svd_numerics SVDBasis_init"
    by (simp add: Vh_is_conj_transpose_def SVDBasis_init_def)
  have s: "generate_basis example_svd_numerics example_training 1 ''scipy'' SVDBasis_init =
     (None,
      \<lparr>basis_V = Some (matrix Complex128 3 1 [Gauss 0 (- 1), Gauss 0 0, Gauss 0 0]),
       basis_Vh = Some (matrix Complex128 1 3 [Gauss 0 1, Gauss 0 0, Gauss 0 0]),
       basis_n = Some 1,
       basis_s = Some (vector Float64 [Gauss 2 0, Gauss 1 0])\<rparr>)"
    by (simp add: generate_basis_def example_defs astype_def ndarray_conj_def ndarray_T_def
          len_nd_def len_opt_def slice_rows_def slice_cols_def slice_stop_def upt_rec)
  have r: "generate_basis example_svd_numerics example_training 1 ''random'' SVDBasis_init =
     (None,
      \<lparr>basis_V = Some (matrix Complex64 3 1 [Gauss 0 (- 1), Gauss 0 0, Gauss 0 0]),
       basis_Vh = Some (matrix Complex64 1 3 [Gauss 0 1, Gauss 0 0, Gauss 0 0]),
       basis_n = Some 1,
       basis_s = Some (vector Float64 [Gauss 2 0])\<rparr>)"
    by (simp add: generate_basis_def example_defs astype_def ndarray_conj_def ndarray_T_def upt_rec)
  show ?thesis
    using basis_pair_invariant [OF h1 h2 h3 h4, of example_training 1 Map.empty "''V.npy''"] h4
    by (simp add: r s)
qed

section \<open>Saving and loading a basis\<close>

text \<open>
  C8. Saving a populated basis and loading the file that was written gives back the same
  \<open>V\<close>, the conjugate transpose of that \<open>V\<close> as \<open>Vh\<close> and, \<open>V\<close> being a matrix, its
  number of columns as \<open>n\<close>; saving a basis that holds no \<open>V\<close> returns normally and leaves the
  files as they were.
\<close>

theorem to_file_from_file_roundtrip:
  "(basis_V b = Some v \<longrightarrow>
      fst (to_file fs filename b) = None \<and>
      basis_V (snd (from_file L (snd (to_file fs filename b)) (npy_name filename) b0)) = Some v \<and>
      basis_Vh (snd (from_file L (snd (to_file fs filename b)) (npy_name filename) b0))
        = Some (ndarray_conj L (ndarray_T v)) \<and>
      (2 \<le> length (shape v) \<longrightarrow>
         fst (from_file L (snd (to_file fs filename b)) (npy_name filename) b0) = None \<and>
         basis_n (snd (from_file L (snd (to_file fs filename b)) (npy_name filename) b0))
           = Some (int (shape v ! 1)))) \<and>
   (basis_V b = None \<longrightarrow> to_file fs filename b = (None, fs))"
  by (auto simp: to_file_def from_file_def np_save_def np_load_def Let_def split: list.splits)

theorem to_file_from_file_roundtrip_witness:
  "basis_V (snd (generate_basis example_svd_numerics example_training 2 ''random'' SVDBasis_init))
     = Some (matrix Complex64 3 2
               [Gauss 0 (- 1), Gauss 0 0, Gauss 0 0, Gauss 1 0, Gauss 0 0, Gauss 0 0]) \<and>
   2 \<le> length (shape (matrix Complex64 3 2
               [Gauss 0 (- 1), Gauss 0 0, Gauss 0 0, Gauss 1 0, Gauss 0 0, Gauss 0 0])) \<and>
   (let b' = from_file example_svd_numerics
               (snd (to_file Map.empty ''V_H1''
                  (snd (generate_basis example_svd_numerics example_training 2 ''random''
                          SVDBasis_init))))
               ''V_H1.npy'' SVDBasis_init
    in fst b' = None \<and>
       basis_V (snd b') = Some (matrix Complex64 3 2
                 [Gauss 0 (- 1), Gauss 0 0, Gauss 0 0, Gauss 1 0, Gauss 0 0, Gauss 0 0]) \<and>
       basis_Vh (snd b') = Some (matrix Complex64 2 3
                 [Gauss 0 1, Gauss 0 0, Gauss 0 0, Gauss 0 0, Gauss 1 0, Gauss 0 0]) \<and>
       basis_n (snd b') = Some 2) \<and>
   basis_V (SVDBasis_init :: gauss SVDBasis) = None \<and>
   to_file Map.empty ''V_H1'' (SVDBasis_init :: gauss SVDBasis) = (None, Map.empty)"
proof -
  let ?v = "matrix Complex64 3 2
              [Gauss 0 (- 1), Gauss 0 0, Gauss 0 0, Gauss 1 0, Gauss 0 0, Gauss 0 0]"
  let ?b = "snd (generate_basis example_svd_numerics example_training 2 ''random'' SVDBasis_init)"
  have v: "basis_V ?b = Some ?v"
    by (simp add: generate_basis_def example_defs astype_def ndarray_conj_def ndarray_T_def upt_rec)
  have d: "2 \<le> length (shape ?v)"
    by (simp add: matrix_def)
  have n: "npy_name ''V_H1'' = ''V_H1.npy''"
    by (simp add: npy_name_def)
  have c: "ndarray_conj example_svd_numerics (ndarray_T ?v)
           = matrix Complex64 2 3 [Gauss 0 1, Gauss 0 0, Gauss 0 0, Gauss 0 0, Gauss 1 0, Gauss 0 0]"
    by (simp add: example_defs ndarray_conj_def ndarray_T_def upt_rec)
  have s: "shape ?v ! 1 = 2"
    by (simp add: matrix_def)
  have e: "basis_V (SVDBasis_init :: gauss SVDBasis) = None"
    by (simp add: SVDBasis_init_def)
  show ?thesis
    using to_file_from_file_roundtrip [of ?b ?v Map.empty "''V_H1''" example_svd_numerics SVDBasis_init]
      to_file_from_file_roundtrip [of "SVDBasis_init :: gauss SVDBasis" ?v Map.empty "''V_H1''"
        example_svd_numerics SVDBasis_init]
      v d e
    by (simp only: n c s Let_def) simp
qed

section \<open>Element types of the stored basis\<close>

lemma dtype_conj_T: "dtype (ndarray_conj L (ndarray_T a)) = dtype a"
  by (simp add: ndarray_conj_def ndarray_T_def)

lemma dtype_slice_rows: "slice_rows n a = Inr a' \<Longrightarrow> dtype a' = dtype a"
  by (auto simp: slice_rows_def Let_def split: list.splits)

lemma dtype_slice_cols: "slice_cols n a = Inr a' \<Longrightarrow> dtype a' = dtype a"
  by (auto simp: slice_cols_def Let_def split: list.splits)

lemma random_dtype:
  assumes "generate_basis L td n ''random'' b = (None, b')"
  shows "map_option dtype (basis_Vh b') = Some Complex64 \<and>
         map_option dtype (basis_V b') = Some Complex64"
  using assms
  by (auto simp: generate_basis_def Let_def ndarray_conj_def ndarray_T_def astype_def
           split: sum.splits)

lemma scipy_dtype:
  assumes "generate_basis L td n ''scipy'' b = (None, b')" and "linalg_svd L td = Inr (U, s, Vh)"
  shows "map_option dtype (basis_Vh b') = Some (dtype Vh) \<and>
         map_option dtype (basis_V b') = Some (dtype Vh)"
proof -
  have c: "dtype (ndarray_conj L (ndarray_T Vh)) = dtype Vh" by (rule dtype_conj_T)
  show ?thesis
    using assms c
    by (auto simp: generate_basis_def Let_def
             split: sum.splits if_splits prod.splits option.splits
             dest!: dtype_slice_rows dtype_slice_cols)
qed

text \<open>
  C10. The \<open>random\<close> branch stores \<open>Vh\<close> and \<open>V\<close> as \<open>complex64\<close> whatever the training data;
  the \<open>scipy\<close> branch stores them with the element type of the \<open>Vh\<close> that the dense
  decomposition returned. When that is \<open>complex128\<close>, the two stored bases differ in
  precision.
\<close>

theorem generate_basis_precision:
  assumes "generate_basis L td n ''random'' b = (None, br)"
    and "generate_basis L td n ''scipy'' b = (None, bs)"
    and "linalg_svd L td = Inr (U, s, Vh)"
  shows "map_option dtype (basis_Vh br) = Some Complex64 \<and>
         map_option dtype (basis_V br) = Some Complex64 \<and>
         map_option dtype (basis_Vh bs) = Some (dtype Vh) \<and>
         map_option dtype (basis_V bs) = Some (dtype Vh) \<and>
         (dtype Vh = Complex128 \<longrightarrow>
            map_option dtype (basis_Vh br) \<noteq> map_option dtype (basis_Vh bs) \<and>
            map_option dtype (basis_V br) \<noteq> map_option dtype (basis_V bs))"
  using random_dtype [OF assms(1)] scipy_dtype [OF assms(2,3)] by auto

theorem generate_basis_precision_witness:
  "dtype example_training = Complex128 \<and>
   linalg_svd example_svd_numerics example_training = Inr (example_svd 2) \<and>
   dtype (snd (snd (example_svd 2))) = Complex128 \<and>
   fst (generate_basis example_svd_numerics example_training 2 ''random'' SVDBasis_init) = None \<and>
   fst (generate_basis example_svd_numerics example_training 2 ''scipy'' SVDBasis_init) = None \<and>
   map_option dtype
     (basis_Vh (snd (generate_basis example_svd_numerics example_training 2 ''random''
                       SVDBasis_init))) = Some Complex64 \<and>
   map_option dtype
     (basis_Vh (snd (generate_basis example_svd_numerics example_training 2 ''scipy''
                       SVDBasis_init))) = Some Complex128"
proof -
  let ?r = "generate_basis example_svd_numerics example_training 2 ''random'' SVDBasis_init"
  let ?s = "generate_basis example_svd_numerics example_training 2 ''scipy'' SVDBasis_init"
  have t: "dtype example_training = Complex128"
    by (simp add: example_defs)
  have l: "linalg_svd example_svd_numerics example_training
           = Inr (fst (example_svd 2), fst (snd (example_svd 2)), snd (snd (example_svd 2)))"
    by (simp add: example_svd_numerics_def example_numerics_def)
  have d: "dtype (snd (snd (example_svd 2))) = Complex128"
    by (simp add: example_svd_def matrix_def)
  have r: "fst ?r = None" by code_simp
  have s: "fst ?s = None" by code_simp
  have r': "?r = (None, snd ?r)" using r by (simp add: prod_eq_iff)
  have s': "?s = (None, snd ?s)" using s by (simp add: prod_eq_iff)
  show ?thesis
    using generate_basis_precision [OF r' s' l] t l d r s by simp
qed

section \<open>The stored rank and the stored singular values\<close>

lemma random_stores_requested_n:
  "n \<noteq> 0 \<Longrightarrow> generate_basis L td n ''random'' b = (None, b') \<Longrightarrow> basis_n b' = Some n"
  by (auto simp: generate_basis_def Let_def split: sum.splits)

lemma scipy_stores_len_Vh:
  "generate_basis L td n ''scipy'' b = (None, b') \<Longrightarrow>
   \<exists>vh. basis_Vh b' = Some vh \<and> len_nd vh = Inr (nat (the (basis_n b'))) \<and> basis_n b' \<noteq> None"
  by (auto simp: generate_basis_def Let_def len_opt_def
           split: sum.splits if_splits prod.splits option.splits)

lemma scipy_stores_all_of_s:
  "generate_basis L td n ''scipy'' b = (None, b') \<Longrightarrow> linalg_svd L td = Inr (U, s, Vh) \<Longrightarrow>
   basis_s b' = Some s"
  by (auto simp: generate_basis_def Let_def len_opt_def
           split: sum.splits if_splits prod.splits option.splits)

text \<open>
  C5. On the two-row training matrix with the requested rank 5, the \<open>random\<close> branch
  returns normally with a \<open>Vh\<close> of two rows and stores \<open>n = 5\<close>, the requested value; the
  \<open>scipy\<close> branch on the same input stores \<open>n = 2\<close>, the number of rows of its \<open>Vh\<close>.
\<close>

theorem generate_basis_random_stores_requested_rank:
  "generate_basis example_svd_numerics example_training 5 ''random'' SVDBasis_init =
     (None,
      \<lparr>basis_V = Some (matrix Complex64 3 2
                [Gauss 0 (- 1), Gauss 0 0, Gauss 0 0, Gauss 1 0, Gauss 0 0, Gauss 0 0]),
       basis_Vh = Some (matrix Complex64 2 3
                [Gauss 0 1, Gauss 0 0, Gauss 0 0, Gauss 0 0, Gauss 1 0, Gauss 0 0]),
       basis_n = Some 5,
       basis_s = Some (vector Float64 [Gauss 2 0, Gauss 1 0])\<rparr>) \<and>
   basis_n (snd (generate_basis example_svd_numerics example_training 5 ''scipy'' SVDBasis_init))
     = Some 2"
  by (simp add: generate_basis_def example_defs astype_def ndarray_conj_def ndarray_T_def
        len_nd_def len_opt_def upt_rec)

text \<open>
  C6. On the same matrix with the requested rank 1, the \<open>scipy\<close> branch keeps one row of
  \<open>Vh\<close> and stores \<open>n = 1\<close>, and stores both singular values.
\<close>

theorem generate_basis_scipy_stores_all_singular_values:
  "generate_basis example_svd_numerics example_training 1 ''scipy'' SVDBasis_init =
     (None,
      \<lparr>basis_V = Some (matrix Complex128 3 1 [Gauss 0 (- 1), Gauss 0 0, Gauss 0 0]),
       basis_Vh = Some (matrix Complex128 1 3 [Gauss 0 1, Gauss 0 0, Gauss 0 0]),
       basis_n = Some 1,
       basis_s = Some (vector Float64 [Gauss 2 0, Gauss 1 0])\<rparr>)"
  by (simp add: generate_basis_def example_defs astype_def ndarray_conj_def ndarray_T_def
        len_nd_def len_opt_def slice_rows_def slice_cols_def slice_stop_def upt_rec)

section \<open>The example dataset\<close>

lemmas dataset_defs =
  example_dataset_def example_collaborators_def example_h_cross_def example_h_plus_def
  example_file_def example_file_swapped_def example_store_def

section \<open>The polarization keys of a dataset file\<close>

lemma keys_cross_plus:
  assumes "map fst grp = [''h_cross'', ''h_plus'']"
  obtains hc hp where "grp = [(''h_cross'', hc), (''h_plus'', hp)]"
proof -
  from assms obtain x y where g: "grp = [x, y]"
    by (cases grp; cases "tl grp") auto
  with assms have "x = (''h_cross'', snd x)" "y = (''h_plus'', snd y)"
    by (simp_all add: prod_eq_iff)
  with g that show thesis by metis
qed

text \<open>
  C2, as stated, fails: a file whose group holds exactly the two polarizations, enumerated
  as \<open>h_plus\<close>, \<open>h_cross\<close>, is rejected.
\<close>

theorem load_rejects_other_enumeration_order:
  "example_store ''swapped.h5'' = Some example_file_swapped \<and>
   h5_waveform_polarizations example_file_swapped =
     Some [(''h_plus'', example_h_plus), (''h_cross'', example_h_cross)] \<and>
   set (map fst [(''h_plus'', example_h_plus), (''h_cross'', example_h_cross)]) =
     {''h_cross'', ''h_plus''} \<and>
   load example_numerics example_collaborators example_store ''swapped.h5'' None None True =
     Inl (AssertionError [])"
  by (auto simp: load_def example_store_def example_file_swapped_def example_file_def)

text \<open>
  C2, amended. For a file that is otherwise readable (it exists, holds the parameters, the
  polarization group and settings from which the domain can be built), \<open>load\<close> fails exactly
  when the keys of the polarization group, in the order in which they are enumerated, are
  not the list \<open>h_cross\<close>, \<open>h_plus\<close>, and it fails with an \<open>AssertionError\<close> then. So a file
  that is accepted holds exactly the two keys: a missing or an extra key causes failure, and
  so does any other order of enumeration.
\<close>

theorem load_polarization_keys:
  assumes "fs filename = Some fp"
    and "h5_parameters fp = Some parameter_array"
    and "h5_waveform_polarizations fp = Some grp"
    and "h5_settings fp = Some settings"
    and "literal_eval E settings = Inr data_settings"
    and "build_domain E data_settings = Inr domain"
  shows "(isl (load L E fs filename transform self_Vh single_precision) \<longleftrightarrow>
            map fst grp \<noteq> [''h_cross'', ''h_plus'']) \<and>
         (map fst grp \<noteq> [''h_cross'', ''h_plus''] \<longrightarrow>
            load L E fs filename transform self_Vh single_precision = Inl (AssertionError [])) \<and>
         (\<not> isl (load L E fs filename transform self_Vh single_precision) \<longrightarrow>
            set (map fst grp) = {''h_cross'', ''h_plus''} \<and> length grp = 2)"
proof (cases "map fst grp = [''h_cross'', ''h_plus'']")
  case False
  with assms show ?thesis by (simp add: load_def)
next
  case True
  then obtain hc hp where g: "grp = [(''h_cross'', hc), (''h_plus'', hp)]"
    by (rule keys_cross_plus)
  have "\<not> isl (load L E fs filename transform self_Vh single_precision)"
    using assms by (simp add: load_def g Let_def)
  with True show ?thesis by (auto simp: g)
qed

theorem load_polarization_keys_witness:
  "example_store ''waveform_dataset.h5'' = Some example_file \<and>
   example_store ''swapped.h5'' = Some example_file_swapped \<and>
   h5_parameters example_file_swapped = h5_parameters example_file \<and>
   h5_parameters example_file =
     Some [[(''mass_1'', 35), (''mass_2'', 30)], [(''mass_1'', 36), (''mass_2'', 29)]] \<and>
   h5_waveform_polarizations example_file =
     Some [(''h_cross'', example_h_cross), (''h_plus'', example_h_plus)] \<and>
   h5_waveform_polarizations example_file_swapped =
     Some [(''h_plus'', example_h_plus), (''h_cross'', example_h_cross)] \<and>
   h5_settings example_file_swapped = h5_settings example_file \<and>
   h5_settings example_file = Some ''domain_settings'' \<and>
   literal_eval example_collaborators ''domain_settings'' = Inr ''domain_settings'' \<and>
   build_domain example_collaborators ''domain_settings'' = Inr (0, 2) \<and>
   isl (load example_numerics example_collaborators example_store ''waveform_dataset.h5''
          None None True) = False \<and>
   load example_numerics example_collaborators example_store ''swapped.h5'' None None True =
     Inl (AssertionError [])"
proof -
  have f: "example_store ''waveform_dataset.h5'' = Some example_file"
    and f': "example_store ''swapped.h5'' = Some example_file_swapped"
    by (simp_all add: example_store_def)
  have p: "h5_parameters example_file =
             Some [[(''mass_1'', 35), (''mass_2'', 30)], [(''mass_1'', 36), (''mass_2'', 29)]]"
    and p': "h5_parameters example_file_swapped =
             Some [[(''mass_1'', 35), (''mass_2'', 30)], [(''mass_1'', 36), (''mass_2'', 29)]]"
    by (simp_all add: example_file_def example_file_swapped_def)
  have g: "h5_waveform_polarizations example_file =
             Some [(''h_cross'', example_h_cross), (''h_plus'', example_h_plus)]"
    and g': "h5_waveform_polarizations example_file_swapped =
             Some [(''h_plus'', example_h_plus), (''h_cross'', example_h_cross)]"
    by (simp_all add: example_file_def example_file_swapped_def)
  have s: "h5_settings example_file = Some ''domain_settings''"
    and s': "h5_settings example_file_swapped = Some ''domain_settings''"
    by (simp_all add: example_file_def example_file_swapped_def)
  have l: "literal_eval example_collaborators ''domain_settings'' = Inr ''domain_settings''"
    and b: "build_domain example_collaborators ''domain_settings'' = Inr (0, 2)"
    by (simp_all add: example_collaborators_def)
  show ?thesis
    using load_polarization_keys
            [where fs = example_store and filename = "''waveform_dataset.h5''"
               and L = example_numerics and transform = None and self_Vh = None
               and single_precision = True, OF f p g s l b]
          load_polarization_keys
            [where fs = example_store and filename = "''swapped.h5''"
               and L = example_numerics and transform = None and self_Vh = None
               and single_precision = True, OF f' p' g' s' l b]
      f f' p p' g g' s s' l b
    by simp
qed

section \<open>A dataset file without compression matrix\<close>

lemma load_without_rb_matrix:
  assumes "fs filename = Some fp" and "h5_rb_matrix_V fp = None"
    and "WaveformDataset_init L E fs filename transform single_precision = Inr self"
  shows "wfd_Vh self =
           Some \<lparr>dtype = (if single_precision then Complex64 else Complex128), shape = [],
                 flat = [nan L]\<rparr>"
  using assms
  by (auto simp: WaveformDataset_init_def load_def np_array_def Let_def
           split: option.splits sum.splits if_splits)

lemma getitem_scalar_Vh:
  assumes "wfd_Vh self = Some Vh" and "shape Vh = []"
  shows "isl (getitem L self idx)"
  using assms
  by (auto simp: getitem_def matmul_def Let_def split: sum.splits)

text \<open>
  C3. The example file has no \<open>rb_matrix_V\<close>. Constructing the dataset from it succeeds, but
  the conversion at the end of \<open>load\<close> has turned the \<open>None\<close> of \<open>_Vh\<close> into a 0-d array, so
  \<open>__getitem__\<close> takes the branch of an active compression matrix and \<open>@\<close> raises.
\<close>

theorem getitem_fails_without_rb_matrix:
  "example_store ''waveform_dataset.h5'' = Some example_file \<and>
   h5_rb_matrix_V example_file = None \<and>
   WaveformDataset_init example_numerics example_collaborators example_store
       ''waveform_dataset.h5'' None False =
     Inr (example_dataset\<lparr>wfd_Vh := Some \<lparr>dtype = Complex128, shape = [], flat = [GNaN]\<rparr>\<rparr>) \<and>
   getitem example_numerics
       (example_dataset\<lparr>wfd_Vh := Some \<lparr>dtype = Complex128, shape = [], flat = [GNaN]\<rparr>\<rparr>) 0 =
     Inl (ValueError ''matmul: Input operand does not have enough dimensions'')"
  by (simp add: WaveformDataset_init_def load_def np_array_def astype_def getitem_def matmul_def
        py_index_def nd_index_def dataset_defs example_numerics_def matrix_def)

section \<open>Truncating the domain of a dataset\<close>

lemmas truncation_defs =
  example_loaded_def example_file_compressed_def example_store_compressed_def
  example_compressed_def example_truncated_def

lemma truncate_already_truncated:
  "wfd_is_truncated self \<Longrightarrow>
   truncate_dataset_domain E new_range self =
     (Some (ValueError ''Dataset is already truncated''), self)"
  by (simp add: truncate_dataset_domain_def)

text \<open>A failed call has changed no attribute other than the domain, and without a new range none.\<close>

lemma truncate_failure_keeps:
  assumes "fst (truncate_dataset_domain E new_range self) \<noteq> None"
  shows "(snd (truncate_dataset_domain E new_range self))\<lparr>wfd_domain := wfd_domain self\<rparr> = self"
    and "new_range = None \<Longrightarrow> snd (truncate_dataset_domain E new_range self) = self"
  using assms
  by (auto simp: truncate_dataset_domain_def Let_def
           split: option.splits prod.splits sum.splits if_splits)

text \<open>On a 0-d \<open>_Vh\<close> every call fails: \<open>_Vh.shape[-1]\<close> has nothing to index.\<close>

lemma truncate_scalar_Vh:
  assumes "wfd_Vh self = Some Vh" and "shape Vh = []"
  shows "fst (truncate_dataset_domain E new_range self) \<noteq> None"
  using assms
  by (auto simp: truncate_dataset_domain_def Let_def
           split: option.splits prod.splits sum.splits if_splits)

text \<open>The constructor on the two example files, and the truncation of the compressed dataset.\<close>

lemma init_loaded:
  "WaveformDataset_init example_numerics example_collaborators example_store
       ''waveform_dataset.h5'' None False = Inr example_loaded"
  by (simp add: WaveformDataset_init_def load_def np_array_def astype_def
        dataset_defs example_loaded_def example_numerics_def matrix_def)

lemma init_compressed:
  "WaveformDataset_init example_numerics example_collaborators example_store_compressed
       ''compressed.h5'' None False = Inr example_compressed"
  by (simp add: WaveformDataset_init_def load_def np_array_def astype_def ndarray_conj_def
        ndarray_T_def truncation_defs example_collaborators_def example_numerics_def matrix_def
        upt_rec)

lemma truncate_compressed:
  "truncate_dataset_domain example_collaborators (Some (1, 2)) example_compressed =
     (None, example_truncated)"
  by (simp add: truncate_dataset_domain_def truncation_defs example_collaborators_def
        example_truncate_data_def matrix_def upt_rec)

text \<open>
  C1, as stated, fails. The example file has no \<open>rb_matrix_V\<close>, so the dataset that the
  constructor builds from it has no compression matrix to truncate. A call of
  \<open>truncate_dataset_domain\<close> with a new range on this dataset fails, and the domain has
  adopted the range before it does: \<open>set_new_range\<close> runs ahead of the look at \<open>_Vh\<close>. The
  error is the \<open>IndexError\<close> of \<open>_Vh.shape[-1]\<close> on the 0-d array that \<open>load\<close> has left in
  \<open>_Vh\<close>.
\<close>

theorem truncate_changes_domain_before_failing:
  "example_store ''waveform_dataset.h5'' = Some example_file \<and>
   h5_rb_matrix_V example_file = None \<and>
   WaveformDataset_init example_numerics example_collaborators example_store
       ''waveform_dataset.h5'' None False = Inr example_loaded \<and>
   wfd_domain example_loaded = (0, 2) \<and>
   truncate_dataset_domain example_collaborators (Some (1, 2)) example_loaded =
     (Some IndexError, example_loaded\<lparr>wfd_domain := (1, 2)\<rparr>)"
  by (simp add: WaveformDataset_init_def load_def np_array_def astype_def
        truncate_dataset_domain_def dataset_defs example_loaded_def example_numerics_def
        matrix_def)

text \<open>
  C1, amended. A call on a truncated dataset raises \<open>ValueError\<close> and changes nothing,
  with or without a new range. A call on a dataset that the constructor has built from a
  file without \<open>rb_matrix_V\<close> fails. Whenever a call fails, the compression matrix and the
  flag \<open>is_truncated\<close> are as before, no attribute other than the domain has changed, and
  without a new range the domain has not changed either.
\<close>

theorem truncate_failure_state:
  "(wfd_is_truncated self \<longrightarrow>
      truncate_dataset_domain E new_range self =
        (Some (ValueError ''Dataset is already truncated''), self)) \<and>
   (fs filename = Some fp \<and> h5_rb_matrix_V fp = None \<and>
    WaveformDataset_init L E fs filename transform single_precision = Inr self \<longrightarrow>
      fst (truncate_dataset_domain E new_range self) \<noteq> None) \<and>
   (fst (truncate_dataset_domain E new_range self) \<noteq> None \<longrightarrow>
      wfd_Vh (snd (truncate_dataset_domain E new_range self)) = wfd_Vh self \<and>
      wfd_is_truncated (snd (truncate_dataset_domain E new_range self)) = wfd_is_truncated self \<and>
      (snd (truncate_dataset_domain E new_range self))\<lparr>wfd_domain := wfd_domain self\<rparr> = self \<and>
      (new_range = None \<longrightarrow> snd (truncate_dataset_domain E new_range self) = self))"
proof (intro conjI impI)
  assume "wfd_is_truncated self"
  then show "truncate_dataset_domain E new_range self =
               (Some (ValueError ''Dataset is already truncated''), self)"
    by (rule truncate_already_truncated)
next
  assume a: "fs filename = Some fp \<and> h5_rb_matrix_V fp = None \<and>
             WaveformDataset_init L E fs filename transform single_precision = Inr self"
  then have "wfd_Vh self =
               Some \<lparr>dtype = (if single_precision then Complex64 else Complex128), shape = [],
                     flat = [nan L]\<rparr>"
    using load_without_rb_matrix [of fs filename fp L E transform single_precision self]
    by simp
  then show "fst (truncate_dataset_domain E new_range self) \<noteq> None"
    by (rule truncate_scalar_Vh) simp
next
  let ?s = "snd (truncate_dataset_domain E new_range self)"
  assume f: "fst (truncate_dataset_domain E new_range self) \<noteq> None"
  show e: "?s\<lparr>wfd_domain := wfd_domain self\<rparr> = self"
    by (rule truncate_failure_keeps(1) [OF f])
  have "wfd_Vh ?s = wfd_Vh (?s\<lparr>wfd_domain := wfd_domain self\<rparr>)" by simp
  then show "wfd_Vh ?s = wfd_Vh self" by (simp only: e)
  have "wfd_is_truncated ?s = wfd_is_truncated (?s\<lparr>wfd_domain := wfd_domain self\<rparr>)" by simp
  then show "wfd_is_truncated ?s = wfd_is_truncated self" by (simp only: e)
  assume "new_range = None"
  then show "?s = self"
    by (rule truncate_failure_keeps(2) [OF f])
qed

theorem truncate_failure_state_witness:
  "WaveformDataset_init example_numerics example_collaborators example_store_compressed
       ''compressed.h5'' None False = Inr example_compressed \<and>
   truncate_dataset_domain example_collaborators (Some (1, 2)) example_compressed =
     (None, example_truncated) \<and>
   wfd_is_truncated example_truncated \<and>
   truncate_dataset_domain example_collaborators (Some (1, 2)) example_truncated =
     (Some (ValueError ''Dataset is already truncated''), example_truncated) \<and>
   example_store ''waveform_dataset.h5'' = Some example_file \<and>
   h5_rb_matrix_V example_file = None \<and>
   WaveformDataset_init example_numerics example_collaborators example_store
       ''waveform_dataset.h5'' None False = Inr example_loaded \<and>
   wfd_Vh (snd (truncate_dataset_domain example_collaborators (Some (1, 2)) example_loaded)) =
     wfd_Vh example_loaded \<and>
   wfd_is_truncated
     (snd (truncate_dataset_domain example_collaborators (Some (1, 2)) example_loaded)) =
     wfd_is_truncated example_loaded \<and>
   (snd (truncate_dataset_domain example_collaborators (Some (1, 2)) example_loaded))
     \<lparr>wfd_domain := wfd_domain example_loaded\<rparr> = example_loaded \<and>
   snd (truncate_dataset_domain example_collaborators None example_loaded) = example_loaded"
proof -
  have t: "wfd_is_truncated example_truncated"
    by (simp add: example_truncated_def)
  have s: "example_store ''waveform_dataset.h5'' = Some example_file"
    by (simp add: example_store_def)
  have r: "h5_rb_matrix_V example_file = None"
    by (simp add: example_file_def)
  show ?thesis
    using truncate_failure_state
            [of example_truncated example_collaborators "Some (1, 2)" example_store
                "''waveform_dataset.h5''" example_file example_numerics None False]
          truncate_failure_state
            [of example_loaded example_collaborators "Some (1, 2)" example_store
                "''waveform_dataset.h5''" example_file example_numerics None False]
          truncate_failure_state
            [of example_loaded example_collaborators None example_store
                "''waveform_dataset.h5''" example_file example_numerics None False]
          t s r init_loaded init_compressed truncate_compressed
    by simp
qed

section \<open>Batches of consecutive indices\<close>

declare chunks.simps [simp del]

lemma chunks_Nil: "chunks n [] = []"
  by (simp add: chunks.simps)

lemma chunks_upt:
  "0 < n \<Longrightarrow> lo < hi \<Longrightarrow> chunks n [lo..<hi] = [lo..<min (lo + n) hi] # chunks n [lo + n..<hi]"
  by (subst chunks.simps) (simp add: take_upt min_def add.commute)

lemma fetch_Inr: "fetch (map (\<lambda>i. Inr (f i)) xs) = Inr (map f xs)"
  by (induction xs) simp_all

lemma untuple_Transformed:
  "untuple (map (\<lambda>i. Transformed (p i) (d i)) xs) = Inr (map p xs, map d xs)"
  by (induction xs) simp_all

lemma map_of_tabulate:
  "k \<in> set ks \<Longrightarrow> map_of (map (\<lambda>x. (x, f x)) ks) k = Some (f k)"
  by (induction ks) auto

lemma lookup_all_tabulate:
  "k \<in> set ks \<Longrightarrow>
   lookup_all k (map (\<lambda>i. map (\<lambda>ifo. (ifo, rows ifo i)) ks) xs) = Inr (map (rows k) xs)"
  by (induction xs) (simp_all add: map_of_tabulate)

lemma stack_rows:
  assumes "xs \<noteq> []" and "\<forall>i\<in>set xs. shape (r i) = sh"
  shows "stack (map r xs) =
           Inr \<lparr>dtype = dtype (r (hd xs)), shape = length xs # sh,
                flat = concat (map (\<lambda>i. flat (r i)) xs)\<rparr>"
  using assms by (cases xs) (auto simp: stack_def list_all_iff comp_def)

lemma collate_dicts_tabulate:
  assumes "xs \<noteq> []" and "\<forall>i\<in>set xs. \<forall>ifo\<in>set ifos. shape (rows ifo i) = sh"
    and "set ks \<subseteq> set ifos"
  shows "collate_dicts ks (map (\<lambda>i. map (\<lambda>ifo. (ifo, rows ifo i)) ifos) xs) =
           Inr (map (\<lambda>k. (k, \<lparr>dtype = dtype (rows k (hd xs)), shape = length xs # sh,
                               flat = concat (map (\<lambda>i. flat (rows k i)) xs)\<rparr>)) ks)"
  using assms(3)
proof (induction ks)
  case Nil
  show ?case by simp
next
  case (Cons k ks)
  then have k: "k \<in> set ifos" and ks: "set ks \<subseteq> set ifos" by simp_all
  have "stack (map (rows k) xs) =
          Inr \<lparr>dtype = dtype (rows k (hd xs)), shape = length xs # sh,
               flat = concat (map (\<lambda>i. flat (rows k i)) xs)\<rparr>"
    by (rule stack_rows) (use assms k in auto)
  then show ?case
    by (simp add: lookup_all_tabulate [OF k] Cons.IH [OF ks])
qed

lemma collate_rows:
  assumes "xs \<noteq> []"
    and "\<forall>i\<in>set xs. item i = Inr (Transformed (ps i) (map (\<lambda>ifo. (ifo, rows ifo i)) ifos))"
    and "\<forall>i\<in>set xs. \<forall>ifo\<in>set ifos. shape (rows ifo i) = sh"
  shows "collate (map item xs) =
           Inr (map ps xs,
                map (\<lambda>k. (k, \<lparr>dtype = dtype (rows k (hd xs)), shape = length xs # sh,
                               flat = concat (map (\<lambda>i. flat (rows k i)) xs)\<rparr>)) ifos)"
proof -
  let ?t = "\<lambda>i. Transformed (ps i) (map (\<lambda>ifo. (ifo, rows ifo i)) ifos)"
  have m: "map item xs = map (\<lambda>i. Inr (?t i)) xs"
    using assms(2) by (intro map_cong refl) simp
  obtain x xs' where x: "xs = x # xs'" using assms(1) by (cases xs) auto
  have f: "fetch (map item xs) = Inr (?t x # map ?t xs')"
    by (simp only: m fetch_Inr) (simp add: x)
  have u: "untuple (?t x # map ?t xs') =
             Inr (map ps xs, map (\<lambda>i. map (\<lambda>ifo. (ifo, rows ifo i)) ifos) xs)"
    using untuple_Transformed [of ps "\<lambda>i. map (\<lambda>ifo. (ifo, rows ifo i)) ifos" xs]
    by (simp add: x)
  have c: "collate_dicts ifos (map (\<lambda>i. map (\<lambda>ifo. (ifo, rows ifo i)) ifos) xs) =
             Inr (map (\<lambda>k. (k, \<lparr>dtype = dtype (rows k (hd xs)), shape = length xs # sh,
                                 flat = concat (map (\<lambda>i. flat (rows k i)) xs)\<rparr>)) ifos)"
    by (rule collate_dicts_tabulate) (use assms in auto)
  show ?thesis
    unfolding collate_def f
    by (simp add: u c comp_def del: untuple.simps)
qed

section \<open>Copying rows into a buffer\<close>

lemma take_concat_uniform:
  "\<forall>x\<in>set xss. length x = r \<Longrightarrow> take (n * r) (concat xss) = concat (take n xss)"
proof (induction xss arbitrary: n)
  case Nil show ?case by simp
next
  case (Cons x xss)
  show ?case
  proof (cases n)
    case 0 then show ?thesis by simp
  next
    case (Suc n')
    with Cons show ?thesis by simp
  qed
qed

lemma length_concat_uniform:
  "\<forall>x\<in>set xss. length x = r \<Longrightarrow> length (concat xss) = length xss * r"
  by (induction xss) simp_all

lemma slice_stop_nat: "slice_stop (int n) l = min n l"
  by (simp add: slice_stop_def)

lemma slice_first_stacked:
  assumes "n \<le> length xs" and "\<forall>i\<in>set xs. length (flat (r i)) = M"
  shows "slice_first (int n)
           \<lparr>dtype = dt, shape = [length xs, M], flat = concat (map (\<lambda>i. flat (r i)) xs)\<rparr> =
         Inr \<lparr>dtype = dt, shape = [n, M], flat = concat (map (\<lambda>i. flat (r i)) (take n xs))\<rparr>"
proof -
  have "take (n * M) (concat (map (\<lambda>i. flat (r i)) xs)) = concat (take n (map (\<lambda>i. flat (r i)) xs))"
    by (rule take_concat_uniform) (use assms(2) in auto)
  with assms(1) show ?thesis
    by (simp add: slice_first_def slice_stop_nat min_def take_map)
qed

lemma strip_ones_id: "length ds \<le> k \<Longrightarrow> strip_ones k ds = ds"
  by (cases ds) simp_all

lemma clip_index_id:
  "list_all2 (<) idx vs \<Longrightarrow> map2 (\<lambda>d i. if d = 1 then 0 else i) vs idx = (idx :: nat list)"
proof (induction idx vs rule: list_all2_induct)
  case Nil show ?case by simp
next
  case (Cons i idx d vs)
  then show ?case by auto
qed

lemma broadcast_to_same:
  assumes "length (flat v) = prod_list (shape v)"
  shows "broadcast_to v (shape v) = Inr (flat v)"
proof -
  have "map (\<lambda>idx. flat v ! offset (shape v) (map2 (\<lambda>d i. if d = 1 then 0 else i) (shape v) idx))
          (indices (shape v))
        = map (\<lambda>idx. flat v ! offset (shape v) idx) (indices (shape v))"
    by (intro map_cong refl) (simp only: indices_iff clip_index_id)
  also have "\<dots> = flat v"
    by (rule map_nth_offset) (rule assms)
  finally show ?thesis
    by (simp add: broadcast_to_def strip_ones_id list_all2_same)
qed

lemma assign_rows_block:
  assumes "shape buf = [N, M]" and "lo + n \<le> N" and "shape v = [n, M]"
    and "length (flat v) = n * M"
  shows "assign_rows L buf (int lo) (int lo + int n) v =
           Inr (buf\<lparr>flat := take (lo * M) (flat buf) @ map (cast L (dtype buf)) (flat v) @
                            drop ((lo + n) * M) (flat buf)\<rparr>)"
proof -
  have s: "slice_stop (int lo) N = lo" "slice_stop (int lo + int n) N = lo + n"
    using assms(2) slice_stop_nat [of lo N] slice_stop_nat [of "lo + n" N] by simp_all
  have "broadcast_to v (shape v) = Inr (flat v)"
    by (rule broadcast_to_same) (simp add: assms)
  then show ?thesis
    by (simp add: assign_rows_def assms(1,3) s Let_def)
qed

section \<open>The collecting loop\<close>

lemma length_concat_rows:
  "\<forall>i\<in>set xs. length (f i) = M \<Longrightarrow> length (concat (map f xs)) = length xs * M"
  by (induction xs) simp_all

lemma length_training_rows:
  "\<forall>i<m. length (flat (r i)) = M \<Longrightarrow> length (training_rows L r m) = m * M"
  using length_concat_rows [of "[0..<m]" "\<lambda>i. map (cast L Complex128) (flat (r i))" M]
  by (simp add: training_rows_def)

lemma training_rows_add:
  "training_rows L r (lo + n) =
     training_rows L r lo @ map (cast L Complex128) (concat (map (\<lambda>i. flat (r i)) [lo..<lo + n]))"
proof -
  have "[0..<lo + n] = [0..<lo] @ [lo..<lo + n]"
    using upt_add_eq_append [of 0 lo n] by simp
  then show ?thesis
    by (simp only: training_rows_def map_append concat_append map_concat map_map comp_def)
qed

lemma fill_block:
  assumes "lo + n \<le> N" and "\<forall>i<lo + n. length (flat (r i)) = M"
  shows "assign_rows L (filled_buffer L g r N M lo) (int lo) (int lo + int n)
           \<lparr>dtype = dt, shape = [n, M], flat = concat (map (\<lambda>i. flat (r i)) [lo..<lo + n])\<rparr> =
         Inr (filled_buffer L g r N M (lo + n))"
proof -
  let ?v = "\<lparr>dtype = dt, shape = [n, M], flat = concat (map (\<lambda>i. flat (r i)) [lo..<lo + n])\<rparr>"
  have lv: "length (flat ?v) = n * M"
    using assms(2) length_concat_rows [of "[lo..<lo + n]" "\<lambda>i. flat (r i)" M] by simp
  have lt: "length (training_rows L r lo) = lo * M"
    by (rule length_training_rows) (use assms(2) in simp)
  have le: "lo * M + n * M \<le> N * M"
    using assms(1) by (metis add_mult_distrib mult_le_mono1)
  have d: "drop ((lo + n) * M) (training_rows L r lo @ map g [lo * M..<N * M])
           = map g [(lo + n) * M..<N * M]"
    using lt by (simp add: add_mult_distrib drop_map add.commute)
  have "assign_rows L (filled_buffer L g r N M lo) (int lo) (int lo + int n) ?v =
          Inr ((filled_buffer L g r N M lo)
                 \<lparr>flat := take (lo * M) (flat (filled_buffer L g r N M lo)) @
                           map (cast L (dtype (filled_buffer L g r N M lo))) (flat ?v) @
                           drop ((lo + n) * M) (flat (filled_buffer L g r N M lo))\<rparr>)"
    by (rule assign_rows_block) (use assms(1) lv in \<open>simp_all add: filled_buffer_def\<close>)
  also have "\<dots> = Inr (filled_buffer L g r N M (lo + n))"
    using lt d by (simp add: filled_buffer_def training_rows_add)
  finally show ?thesis .
qed

lemma assign_all_fill:
  assumes "lo + n \<le> N" and "n \<le> length xs" and "take n xs = [lo..<lo + n]"
    and "\<forall>k\<in>set ifos. \<forall>i<lo + n. length (flat (rows k i)) = M"
    and "\<forall>k\<in>set ifos. \<forall>i\<in>set xs. length (flat (rows k i)) = M"
    and "set ks \<subseteq> set ifos"
  shows "assign_all L (map (\<lambda>k. (k, filled_buffer L (G k) (rows k) N M lo)) ks)
           (map (\<lambda>k. (k, \<lparr>dtype = dt k, shape = [length xs, M],
                          flat = concat (map (\<lambda>i. flat (rows k i)) xs)\<rparr>)) ifos)
           (int lo) (int n) =
         Inr (map (\<lambda>k. (k, filled_buffer L (G k) (rows k) N M (lo + n))) ks)"
  using assms(6)
proof (induction ks)
  case Nil
  show ?case by simp
next
  case (Cons k ks)
  then have k: "k \<in> set ifos" and ks: "set ks \<subseteq> set ifos" by simp_all
  have s: "slice_first (int n)
             \<lparr>dtype = dt k, shape = [length xs, M], flat = concat (map (\<lambda>i. flat (rows k i)) xs)\<rparr> =
           Inr \<lparr>dtype = dt k, shape = [n, M],
                flat = concat (map (\<lambda>i. flat (rows k i)) [lo..<lo + n])\<rparr>"
    using slice_first_stacked [of n xs "rows k" M "dt k"] assms(2,3,5) k by simp
  have f: "assign_rows L (filled_buffer L (G k) (rows k) N M lo) (int lo) (int lo + int n)
             \<lparr>dtype = dt k, shape = [n, M],
              flat = concat (map (\<lambda>i. flat (rows k i)) [lo..<lo + n])\<rparr> =
           Inr (filled_buffer L (G k) (rows k) N M (lo + n))"
    by (rule fill_block) (use assms(1,4) k in auto)
  show ?case
    by (simp add: map_of_tabulate [OF k] s f Cons.IH [OF ks])
qed

lemma batches_needed: "0 < bs \<Longrightarrow> idx * bs < Nn \<Longrightarrow> Suc idx * bs \<le> ((Nn + bs - 1) div bs) * bs"
proof -
  assume bs: "0 < bs" and lo: "idx * bs < (Nn :: nat)"
  then have "Suc idx * bs \<le> Nn + bs - 1" by simp
  then have "Suc idx * bs div bs \<le> (Nn + bs - 1) div bs" by (rule div_le_mono)
  with bs have "Suc idx \<le> (Nn + bs - 1) div bs" by simp
  then show ?thesis by (rule mult_le_mono1)
qed

lemma rb_loop_fills:
  assumes bs: "0 < bs" and len: "Nn \<le> len"
    and good: "\<forall>i < min len (((Nn + bs - 1) div bs) * bs).
                 item i = Inr (Transformed (ps i) (map (\<lambda>ifo. (ifo, rows ifo i)) ifos))"
    and shp: "\<forall>i < min len (((Nn + bs - 1) div bs) * bs). \<forall>ifo\<in>set ifos.
                 shape (rows ifo i) = [M] \<and> length (flat (rows ifo i)) = M"
    and lo: "idx * bs < Nn"
  shows "rb_loop L (int Nn) (int bs) idx
           (map (\<lambda>batch. collate (map item batch)) (chunks bs [idx * bs..<len]))
           (map (\<lambda>k. (k, filled_buffer L (G k) (rows k) Nn M (idx * bs))) ifos) =
         Inr (map (\<lambda>k. (k, filled_buffer L (G k) (rows k) Nn M Nn)) ifos)"
  using lo
proof (induction "Nn - idx * bs" arbitrary: idx rule: less_induct)
  case less
  let ?K = "min len (((Nn + bs - 1) div bs) * bs)"
  let ?lo = "idx * bs"
  let ?hi = "min (?lo + bs) len"
  let ?xs = "[?lo..<?hi]"
  let ?n = "min bs (Nn - ?lo)"
  from less.prems len have lolen: "?lo < len" by simp
  have hiK: "?hi \<le> ?K"
    using batches_needed [OF bs less.prems] by simp
  have xs: "?xs \<noteq> []" using lolen bs by simp
  have c: "chunks bs [?lo..<len] = ?xs # chunks bs [?lo + bs..<len]"
    by (rule chunks_upt [OF bs lolen])
  have g: "\<forall>i\<in>set ?xs. item i = Inr (Transformed (ps i) (map (\<lambda>ifo. (ifo, rows ifo i)) ifos))"
    using good hiK by auto
  have s: "\<forall>i\<in>set ?xs. \<forall>ifo\<in>set ifos. shape (rows ifo i) = [M]"
    using shp hiK by auto
  have b: "collate (map item ?xs) =
             Inr (map ps ?xs,
                  map (\<lambda>k. (k, \<lparr>dtype = dtype (rows k (hd ?xs)), shape = length ?xs # [M],
                                 flat = concat (map (\<lambda>i. flat (rows k i)) ?xs)\<rparr>)) ifos)"
    by (rule collate_rows [OF xs g s])
  have n1: "?lo + ?n \<le> Nn" using less.prems by simp
  have n2: "?n \<le> length ?xs" using len less.prems by simp
  have n3: "take ?n ?xs = [?lo..<?lo + ?n]"
    using len less.prems by (simp add: take_upt min_def)
  have n4: "\<forall>k\<in>set ifos. \<forall>i<?lo + ?n. length (flat (rows k i)) = M"
  proof (intro ballI allI impI)
    fix k i assume k: "k \<in> set ifos" and i: "i < ?lo + ?n"
    have "?lo + ?n \<le> ?hi" using len less.prems by simp
    with i hiK have "i < ?K" by linarith
    with shp k show "length (flat (rows k i)) = M" by blast
  qed
  have n5: "\<forall>k\<in>set ifos. \<forall>i\<in>set ?xs. length (flat (rows k i)) = M"
    using shp hiK by auto
  have a: "assign_all L (map (\<lambda>k. (k, filled_buffer L (G k) (rows k) Nn M ?lo)) ifos)
             (map (\<lambda>k. (k, \<lparr>dtype = dtype (rows k (hd ?xs)), shape = [length ?xs, M],
                            flat = concat (map (\<lambda>i. flat (rows k i)) ?xs)\<rparr>)) ifos)
             (int ?lo) (int ?n) =
           Inr (map (\<lambda>k. (k, filled_buffer L (G k) (rows k) Nn M (?lo + ?n))) ifos)"
    by (rule assign_all_fill [OF n1 n2 n3 n4 n5]) simp
  have d: "int Nn - int idx * int bs = int (Nn - ?lo)"
    using less.prems by (simp add: of_nat_diff less_imp_le)
  have m: "min (int bs) (int Nn - int idx * int bs) = int ?n"
    by (simp only: d of_nat_min)
  show ?case
  proof (cases "?lo + ?n = Nn")
    case True
    then have "int idx * int bs + int ?n = int Nn"
      by (metis of_nat_add of_nat_mult)
    then show ?thesis
      using a True by (simp add: c b m Let_def)
  next
    case False
    define l where "l = idx * bs"
    from False less.prems have "l + min bs (Nn - l) \<noteq> Nn" and "l < Nn"
      by (simp_all add: l_def)
    then have lb: "min bs (Nn - l) = bs \<and> l + bs < Nn" by arith
    then have nb: "?n = bs" and lt: "Suc idx * bs < Nn"
      by (simp_all add: l_def add.commute)
    from lb have "int l + int bs \<noteq> int Nn" by linarith
    then have ne: "int ?lo + int bs \<noteq> int Nn" unfolding l_def .
    have m': "min (int bs) (int Nn - int idx * int bs) = int bs"
      by (simp only: m nb)
    have a': "assign_all L (map (\<lambda>k. (k, filled_buffer L (G k) (rows k) Nn M ?lo)) ifos)
             (map (\<lambda>k. (k, \<lparr>dtype = dtype (rows k (hd ?xs)), shape = [length ?xs, M],
                            flat = concat (map (\<lambda>i. flat (rows k i)) ?xs)\<rparr>)) ifos)
             (int ?lo) (int bs) =
           Inr (map (\<lambda>k. (k, filled_buffer L (G k) (rows k) Nn M (?lo + bs))) ifos)"
      using a by (simp only: nb)
    have ih: "rb_loop L (int Nn) (int bs) (Suc idx)
                (map (\<lambda>batch. collate (map item batch)) (chunks bs [Suc idx * bs..<len]))
                (map (\<lambda>k. (k, filled_buffer L (G k) (rows k) Nn M (Suc idx * bs))) ifos) =
              Inr (map (\<lambda>k. (k, filled_buffer L (G k) (rows k) Nn M Nn)) ifos)"
      by (rule less.hyps) (use less.prems lt bs in auto)
    have e: "Suc idx * bs = ?lo + bs" by simp
    have ih': "rb_loop L (int Nn) (int bs) (Suc idx)
                (map (\<lambda>batch. collate (map item batch)) (chunks bs [?lo + bs..<len]))
                (map (\<lambda>k. (k, filled_buffer L (G k) (rows k) Nn M (?lo + bs))) ifos) =
              Inr (map (\<lambda>k. (k, filled_buffer L (G k) (rows k) Nn M Nn)) ifos)"
      using ih by (simp only: e)
    show ?thesis
      using a' ne ih'
      by (simp add: c b m' Let_def)
  qed
qed

lemma collect_first_rows:
  assumes N: "0 < Nn" and bs: "0 < bs" and len: "Nn \<le> len_wfd wfd" and nw: "0 \<le> num_workers"
    and ifos: "ifos \<noteq> []"
    and good: "\<forall>i < min (len_wfd wfd) (((Nn + bs - 1) div bs) * bs).
                 getitem L wfd (int i) = Inr (Transformed (ps i) (map (\<lambda>ifo. (ifo, rows ifo i)) ifos))"
    and shp: "\<forall>i < min (len_wfd wfd) (((Nn + bs - 1) div bs) * bs). \<forall>ifo\<in>set ifos.
                 shape (rows ifo i) = [M] \<and> length (flat (rows ifo i)) = M"
  shows "collect_rb_train_data L G wfd (int Nn) (int bs) num_workers =
           Inr (map (\<lambda>ifo. (ifo, \<lparr>dtype = Complex128, shape = [Nn, M],
                                  flat = training_rows L (rows ifo) Nn\<rparr>)) ifos)"
proof -
  let ?K = "min (len_wfd wfd) (((Nn + bs - 1) div bs) * bs)"
  have K: "0 < ?K"
    using batches_needed [OF bs, of 0 Nn] N bs len by simp
  obtain ifo0 rest where i0: "ifos = ifo0 # rest" using ifos by (cases ifos) auto
  have g0: "getitem L wfd 0 = Inr (Transformed (ps 0) (map (\<lambda>ifo. (ifo, rows ifo 0)) ifos))"
    using good K by (metis of_nat_0)
  have m0: "map_of (map (\<lambda>ifo. (ifo, rows ifo 0)) ifos) ifo0 = Some (rows ifo0 0)"
    by (rule map_of_tabulate) (simp add: i0)
  have l0: "len_nd (rows ifo0 0) = Inr M"
    using shp K by (simp add: len_nd_def i0)
  have e: "np_empty (G k) [Nn, M] Complex128 = filled_buffer L (G k) (rows k) Nn M (0 * bs)" for k
    by (simp add: np_empty_def filled_buffer_def training_rows_def)
  have f: "filled_buffer L (G k) (rows k) Nn M Nn =
             \<lparr>dtype = Complex128, shape = [Nn, M], flat = training_rows L (rows k) Nn\<rparr>" for k
    by (simp add: filled_buffer_def)
  have loop: "rb_loop L (int Nn) (int bs) 0
             (map (\<lambda>batch. collate (map (\<lambda>i. getitem L wfd (int i)) batch))
                (chunks bs [0 * bs..<len_wfd wfd]))
             (map (\<lambda>k. (k, filled_buffer L (G k) (rows k) Nn M (0 * bs))) ifos) =
           Inr (map (\<lambda>k. (k, filled_buffer L (G k) (rows k) Nn M Nn)) ifos)"
    by (rule rb_loop_fills [OF bs len good shp]) (use N in simp)
  have fs: "map fst (map (\<lambda>ifo. (ifo, rows ifo 0)) ifos) = ifo0 # rest"
    by (simp add: i0 comp_def)
  have bufs: "map (\<lambda>ifo. (ifo, np_empty (G ifo) [nat (int Nn), M] Complex128)) (ifo0 # rest) =
              map (\<lambda>k. (k, filled_buffer L (G k) (rows k) Nn M (0 * bs))) ifos"
    by (simp only: nat_int e i0)
  show ?thesis
    unfolding collect_rb_train_data_def g0 sum.case item.case fs list.case m0 option.case l0
      loader_batches_def bufs Let_def
    using bs nw loop by (simp add: f)
qed

lemma restores_transform:
  "\<not> isl (fst (generate_and_save_reduced_basis L G fs wfd transforms_rb N batch_size num_workers
              n_rb out_dir suffix)) \<Longrightarrow>
   fst (snd (generate_and_save_reduced_basis L G fs wfd transforms_rb N batch_size num_workers
              n_rb out_dir suffix)) = wfd"
  by (auto simp: generate_and_save_reduced_basis_def Let_def split: sum.splits option.splits)

section \<open>The rows that the builder collects\<close>

text \<open>
  C9. Let the source supply at least \<open>N > 0\<close> samples, in batches of \<open>batch_size > 0\<close>, and
  let every sample up to the end of the batch that holds row \<open>N - 1\<close> have, under
  \<open>transforms_rb\<close>, the same channels with a row of length \<open>M\<close> each. Then the loop leaves in
  the buffer of every channel exactly the first \<open>N\<close> rows of the channel, converted to the
  element type of the buffer: nothing of the uninitialised contents remains, the rows of the
  last batch beyond row \<open>N - 1\<close> are not copied, and the samples after that batch are not
  even asked for (nothing is assumed about them). And when the function returns normally,
  the dataset is as before the call, the transform included.
\<close>

theorem reduced_basis_collects_first_rows:
  assumes "0 < Nn" and "0 < bs" and "Nn \<le> len_wfd wfd" and "0 \<le> num_workers"
    and "ifos \<noteq> []"
    and "\<forall>i < min (len_wfd wfd) (((Nn + bs - 1) div bs) * bs).
           getitem L (wfd\<lparr>wfd_transform := transforms_rb\<rparr>) (int i) =
             Inr (Transformed (ps i) (map (\<lambda>ifo. (ifo, rows ifo i)) ifos))"
    and "\<forall>i < min (len_wfd wfd) (((Nn + bs - 1) div bs) * bs). \<forall>ifo\<in>set ifos.
           shape (rows ifo i) = [M] \<and> length (flat (rows ifo i)) = M"
  shows "collect_rb_train_data L G (wfd\<lparr>wfd_transform := transforms_rb\<rparr>) (int Nn) (int bs)
           num_workers =
           Inr (map (\<lambda>ifo. (ifo, \<lparr>dtype = Complex128, shape = [Nn, M],
                                  flat = training_rows L (rows ifo) Nn\<rparr>)) ifos) \<and>
         (\<not> isl (fst (generate_and_save_reduced_basis L G fs wfd transforms_rb (int Nn) (int bs)
                        num_workers n_rb out_dir suffix)) \<longrightarrow>
          fst (snd (generate_and_save_reduced_basis L G fs wfd transforms_rb (int Nn) (int bs)
                      num_workers n_rb out_dir suffix)) = wfd)"
proof
  have l: "len_wfd (wfd\<lparr>wfd_transform := transforms_rb\<rparr>) = len_wfd wfd"
    by (simp add: len_wfd_def)
  show "collect_rb_train_data L G (wfd\<lparr>wfd_transform := transforms_rb\<rparr>) (int Nn) (int bs)
          num_workers =
        Inr (map (\<lambda>ifo. (ifo, \<lparr>dtype = Complex128, shape = [Nn, M],
                               flat = training_rows L (rows ifo) Nn\<rparr>)) ifos)"
    using assms(3,6,7) unfolding l [symmetric]
    by (rule collect_first_rows [OF assms(1,2) _ assms(4,5)])
  show "\<not> isl (fst (generate_and_save_reduced_basis L G fs wfd transforms_rb (int Nn) (int bs)
                     num_workers n_rb out_dir suffix)) \<longrightarrow>
        fst (snd (generate_and_save_reduced_basis L G fs wfd transforms_rb (int Nn) (int bs)
                    num_workers n_rb out_dir suffix)) = wfd"
    using restores_transform by blast
qed

lemma length_example_rows: "length (example_hp_row i) = 2" "length (example_hc_row i) = 2"
  by (simp_all add: example_hp_row_def example_hc_row_def)

lemma example_row:
  assumes "i < 25" and "\<And>j. length (f j) = 2"
  shows "take 2 (drop (i * 2) (concat (map f [0..<25]))) = f i"
proof -
  have "take 2 (drop (i * 2) (concat (map f [0..<25]))) = take 2 (map f [0..<25] ! i)"
    by (rule take_drop_concat_uniform) (use assms in auto)
  with assms show ?thesis by simp
qed

lemma example_getitem:
  assumes "i < 25"
  shows "getitem example_builder_numerics
           (example_dataset25\<lparr>wfd_transform := Some example_transforms_rb\<rparr>) (int i) =
         Inr (Transformed [(''index'', int i)]
                (map (\<lambda>ifo. (ifo, example_strain ifo i)) [''H1'', ''L1'']))"
  using assms
  by (simp add: getitem_def example_dataset25_def py_index_def nd_index_def matrix_def
        example_row length_example_rows example_transforms_rb_def example_strain_def)

lemma example_training_rows:
  "training_rows example_builder_numerics (example_strain ''H1'') 20 = flat example_train_H1"
  "training_rows example_builder_numerics (example_strain ''L1'') 20 = flat example_train_L1"
  by (simp_all add: training_rows_def example_strain_def example_builder_numerics_def
        example_numerics_def example_train_H1_def example_train_L1_def matrix_def)

theorem reduced_basis_collects_first_rows_witness:
  "len_wfd example_dataset25 = 25 \<and>
   collect_rb_train_data example_builder_numerics example_uninitialised
       (example_dataset25\<lparr>wfd_transform := Some example_transforms_rb\<rparr>) 20 7 16 =
     Inr [(''H1'', example_train_H1), (''L1'', example_train_L1)] \<and>
   fst (generate_and_save_reduced_basis example_builder_numerics example_uninitialised Map.empty
          example_dataset25 (Some example_transforms_rb) 20 7 16 2 (Some ''out'') []) =
     Inr [''out/V_H1.npy'', ''out/V_L1.npy''] \<and>
   fst (snd (generate_and_save_reduced_basis example_builder_numerics example_uninitialised
          Map.empty example_dataset25 (Some example_transforms_rb) 20 7 16 2 (Some ''out'') [])) =
     example_dataset25"
proof -
  let ?wfd = "example_dataset25\<lparr>wfd_transform := Some example_transforms_rb\<rparr>"
  have len: "len_wfd example_dataset25 = 25"
    by (simp add: len_wfd_def example_dataset25_def)
  have K: "min (len_wfd example_dataset25) (((20 + 7 - 1) div 7) * 7) = (21::nat)"
    by (simp add: len)
  have h1: "(0::nat) < 20" and h2: "(0::nat) < 7" and h3: "(20::nat) \<le> len_wfd example_dataset25"
    and h4: "(0::int) \<le> 16" and h5: "[''H1'', ''L1''] \<noteq> []"
    by (simp_all add: len)
  have h6: "\<forall>i < min (len_wfd example_dataset25) (((20 + 7 - 1) div 7) * 7).
              getitem example_builder_numerics ?wfd (int i) =
                Inr (Transformed [(''index'', int i)]
                       (map (\<lambda>ifo. (ifo, example_strain ifo i)) [''H1'', ''L1'']))"
    unfolding K using example_getitem by simp
  have h7: "\<forall>i < min (len_wfd example_dataset25) (((20 + 7 - 1) div 7) * 7).
              \<forall>ifo\<in>set [''H1'', ''L1''].
                shape (example_strain ifo i) = [2] \<and> length (flat (example_strain ifo i)) = 2"
    by (simp add: example_strain_def length_example_rows)
  have run: "fst (generate_and_save_reduced_basis example_builder_numerics example_uninitialised
               Map.empty example_dataset25 (Some example_transforms_rb) 20 7 16 2 (Some ''out'') [])
             = Inr [''out/V_H1.npy'', ''out/V_L1.npy'']"
    by code_simp
  have t: "\<lparr>dtype = Complex128, shape = [20, 2], flat = flat example_train_H1\<rparr> = example_train_H1"
    "\<lparr>dtype = Complex128, shape = [20, 2], flat = flat example_train_L1\<rparr> = example_train_L1"
    by (simp_all add: example_train_H1_def example_train_L1_def matrix_def)
  show ?thesis
    using reduced_basis_collects_first_rows
            [where Nn = 20 and bs = 7 and wfd = example_dataset25 and num_workers = 16
               and ifos = "[''H1'', ''L1'']" and L = example_builder_numerics
               and transforms_rb = "Some example_transforms_rb"
               and ps = "\<lambda>i. [(''index'', int i)]" and rows = example_strain and M = 2
               and G = example_uninitialised and fs = Map.empty and n_rb = 2
               and out_dir = "Some ''out''" and suffix = "[]",
             OF h1 h2 h3 h4 h5 h6 h7]
      run len
    by (simp add: example_training_rows t)
qed

end
